theory Spec2Isabelle
  imports Complex_Main
begin

section \<open>Values shared by the criteria\<close>

text \<open>
  The criteria of \<^verbatim>\<open>hypertrees/tree\<close> are Cython extension classes. A C \<^verbatim>\<open>double\<close> is
  modelled as a \<^typ>\<open>real\<close>: the development states the arithmetic the code writes down and
  leaves rounding, infinities and NaN aside. A \<^verbatim>\<open>SIZE_t\<close> that counts (\<^verbatim>\<open>n_outputs\<close>,
  \<^verbatim>\<open>n_samples\<close>, \<^verbatim>\<open>n_features\<close>) is an \<^typ>\<open>int\<close>; a \<^verbatim>\<open>SIZE_t\<close> that is a position in an
  array (\<^verbatim>\<open>start\<close>, \<^verbatim>\<open>end\<close>, \<^verbatim>\<open>pos\<close>, an entry of \<^verbatim>\<open>row_indices\<close>) is a \<^typ>\<open>nat\<close>. A
  two-dimensional array is a list of rows. A weight array that may be absent (\<^verbatim>\<open>None\<close> or
  \<^verbatim>\<open>NULL\<close>) is an option.

  A \<^verbatim>\<open>cdef int ... except -1\<close> method returns its C return code next to the updated object,
  so that what a failing call leaves behind stays visible. A raised Python exception is a
  value of \<open>error\<close> on the left of a sum. It reaches the caller of a Python method and of a
  \<^verbatim>\<open>cdef\<close> method that returns a Python object or is declared with an \<^verbatim>\<open>except\<close> clause
  (\<^verbatim>\<open>except -1\<close>, \<^verbatim>\<open>except NULL\<close>).
\<close>

type_synonym matrix = "real list list"

datatype error =
  ValueError | TypeError | InvalidAxisError | UnboundLocalError
  | ZeroDivisionError | AttributeError

text \<open>
  The files carry no \<^verbatim>\<open>cdivision\<close> directive, so a division of two doubles checks its
  divisor and raises \<^verbatim>\<open>ZeroDivisionError\<close>.
\<close>

definition cdiv :: "real \<Rightarrow> real \<Rightarrow> error + real" where
  "cdiv a b = (if b = 0 then Inl ZeroDivisionError else Inr (a / b))"

text \<open>
  A \<^verbatim>\<open>cdef\<close> method that returns a \<^verbatim>\<open>double\<close> or nothing and has no \<^verbatim>\<open>except\<close> clause cannot
  hand an exception to its caller: an exception raised in its body is printed as ignored,
  and the method returns \<open>0.0\<close>, or returns with its output arguments as far as it had
  written them. Such a method is modelled by the exception it ignored, if any, next to
  what its caller receives.
\<close>

definition unraisable :: "error + real \<Rightarrow> error option \<times> real" where
  "unraisable r = (case r of Inl e \<Rightarrow> (Some e, 0) | Inr v \<Rightarrow> (None, v))"

section \<open>The scikit-learn criterion interface\<close>

text \<open>
  \<^verbatim>\<open>sklearn.tree._criterion.Criterion\<close> and \<^verbatim>\<open>RegressionCriterion\<close> are external. The records
  hold the attributes this repository reads or assigns; the older of the two source files
  calls \<^verbatim>\<open>sample_indices\<close> \<^verbatim>\<open>samples\<close>. The field \<open>endp\<close> is the attribute \<^verbatim>\<open>end\<close>.
\<close>

record Criterion =
  n_outputs :: int
  n_samples :: int
  y :: matrix
  sample_weight :: "real list option"
  sample_indices :: "nat list"
  start :: nat
  endp :: nat
  pos :: nat
  n_node_samples :: int
  weighted_n_samples :: real
  weighted_n_node_samples :: real
  weighted_n_left :: real
  weighted_n_right :: real

record RegressionCriterion = Criterion +
  sq_sum_total :: real
  sum_total :: "real list"
  sum_left :: "real list"
  sum_right :: "real list"

text \<open>
  The virtual methods of a criterion class are a table of functions on the object's
  attributes: the repository calls them and never sees their bodies. An object is its class
  together with its attributes.
\<close>

record criterion_class =
  Criterion_new :: "int \<Rightarrow> int \<Rightarrow> RegressionCriterion"
  Criterion_init :: "matrix \<Rightarrow> real list option \<Rightarrow> real \<Rightarrow> nat list \<Rightarrow> nat \<Rightarrow> nat
                      \<Rightarrow> RegressionCriterion \<Rightarrow> int \<times> RegressionCriterion"
  Criterion_reset :: "RegressionCriterion \<Rightarrow> int \<times> RegressionCriterion"
  Criterion_reverse_reset :: "RegressionCriterion \<Rightarrow> int \<times> RegressionCriterion"
  Criterion_update :: "nat \<Rightarrow> RegressionCriterion \<Rightarrow> int \<times> RegressionCriterion"
  Criterion_node_impurity :: "RegressionCriterion \<Rightarrow> real"
  Criterion_children_impurity :: "RegressionCriterion \<Rightarrow> real \<times> real"
  Criterion_impurity_improvement :: "real \<Rightarrow> real \<Rightarrow> real \<Rightarrow> RegressionCriterion \<Rightarrow> real"

record criterion_object =
  cls :: criterion_class
  state :: RegressionCriterion

definition call_init ::
  "criterion_object \<Rightarrow> matrix \<Rightarrow> real list option \<Rightarrow> real \<Rightarrow> nat list \<Rightarrow> nat \<Rightarrow> nat
     \<Rightarrow> int \<times> criterion_object" where
  "call_init c y' w wn idx s e =
     (case Criterion_init (cls c) y' w wn idx s e (state c) of
        (rc, st) \<Rightarrow> (rc, c\<lparr>state := st\<rparr>))"

definition call_reset :: "criterion_object \<Rightarrow> int \<times> criterion_object" where
  "call_reset c =
     (case Criterion_reset (cls c) (state c) of (rc, st) \<Rightarrow> (rc, c\<lparr>state := st\<rparr>))"

definition call_reverse_reset :: "criterion_object \<Rightarrow> int \<times> criterion_object" where
  "call_reverse_reset c =
     (case Criterion_reverse_reset (cls c) (state c) of (rc, st) \<Rightarrow> (rc, c\<lparr>state := st\<rparr>))"

definition call_update :: "nat \<Rightarrow> criterion_object \<Rightarrow> int \<times> criterion_object" where
  "call_update new_pos c =
     (case Criterion_update (cls c) new_pos (state c) of (rc, st) \<Rightarrow> (rc, c\<lparr>state := st\<rparr>))"

definition call_node_impurity :: "'a criterion_object_scheme \<Rightarrow> real" where
  "call_node_impurity c = Criterion_node_impurity (cls c) (state c)"

definition call_children_impurity :: "'a criterion_object_scheme \<Rightarrow> real \<times> real" where
  "call_children_impurity c = Criterion_children_impurity (cls c) (state c)"

definition call_impurity_improvement ::
  "'a criterion_object_scheme \<Rightarrow> real \<Rightarrow> real \<Rightarrow> real \<Rightarrow> real" where
  "call_impurity_improvement c impurity_parent impurity_left impurity_right =
     Criterion_impurity_improvement (cls c) impurity_parent impurity_left impurity_right (state c)"

section \<open>SSCompositeCriterion\<close>

text \<open>
  \<^verbatim>\<open>SSCompositeCriterion\<close> (\<^verbatim>\<open>_semisupervised_criterion.pyx\<close>) is itself a \<^verbatim>\<open>Criterion\<close> and
  holds two sub-criteria. The two are distinct objects here, as the factory
  \<^verbatim>\<open>make_2dss_splitter\<close> builds them.
\<close>

record SSCompositeCriterion = Criterion +
  supervision :: real
  original_supervision :: real
  supervised_criterion :: criterion_object
  unsupervised_criterion :: criterion_object
  n_features :: int
  X :: matrix

definition SSCompositeCriterion_reset ::
  "'a SSCompositeCriterion_scheme \<Rightarrow> int \<times> 'a SSCompositeCriterion_scheme" where
  "SSCompositeCriterion_reset self =
     (case call_reset (supervised_criterion self) of
        (rc_s, s) \<Rightarrow>
          let self1 = self\<lparr>supervised_criterion := s\<rparr> in
          if rc_s = -1 then (-1, self1)
          else (case call_reset (unsupervised_criterion self1) of
                  (rc_u, u) \<Rightarrow>
                    let self2 = self1\<lparr>unsupervised_criterion := u\<rparr> in
                    if rc_u = -1 then (-1, self2) else (0, self2)))"

definition SSCompositeCriterion_reverse_reset ::
  "'a SSCompositeCriterion_scheme \<Rightarrow> int \<times> 'a SSCompositeCriterion_scheme" where
  "SSCompositeCriterion_reverse_reset self =
     (case call_reverse_reset (supervised_criterion self) of
        (rc_s, s) \<Rightarrow>
          let self1 = self\<lparr>supervised_criterion := s\<rparr> in
          if rc_s = -1 then (-1, self1)
          else (case call_reverse_reset (unsupervised_criterion self1) of
                  (rc_u, u) \<Rightarrow>
                    let self2 = self1\<lparr>unsupervised_criterion := u\<rparr> in
                    if rc_u = -1 then (-1, self2) else (0, self2)))"

definition SSCompositeCriterion_update ::
  "nat \<Rightarrow> 'a SSCompositeCriterion_scheme \<Rightarrow> int \<times> 'a SSCompositeCriterion_scheme" where
  "SSCompositeCriterion_update new_pos self =
     (case call_update new_pos (supervised_criterion self) of
        (rc_s, s) \<Rightarrow>
          let self1 = self\<lparr>supervised_criterion := s\<rparr> in
          if rc_s = -1 then (-1, self1)
          else (case call_update new_pos (unsupervised_criterion self1) of
                  (rc_u, u) \<Rightarrow>
                    let self2 = self1\<lparr>unsupervised_criterion := u\<rparr> in
                    if rc_u = -1 then (-1, self2) else (0, self2\<lparr>pos := new_pos\<rparr>)))"

definition SSCompositeCriterion_node_impurity :: "'a SSCompositeCriterion_scheme \<Rightarrow> real" where
  "SSCompositeCriterion_node_impurity self =
     (let sup = supervision self in
      sup * call_node_impurity (supervised_criterion self)
      + (1 - sup) * call_node_impurity (unsupervised_criterion self))"

definition SSCompositeCriterion_impurity_improvement ::
  "'a SSCompositeCriterion_scheme \<Rightarrow> real \<Rightarrow> real \<Rightarrow> real \<Rightarrow> real" where
  "SSCompositeCriterion_impurity_improvement self impurity_parent impurity_left impurity_right =
     (let sup = supervision self;
          s_imp = call_impurity_improvement (supervised_criterion self)
                    impurity_parent impurity_left impurity_right;
          u_imp = call_impurity_improvement (unsupervised_criterion self)
                    impurity_parent impurity_left impurity_right
      in sup * s_imp + (1 - sup) * u_imp)"

section \<open>A variance criterion to run the sub-criterion interface on\<close>

text \<open>
  The scikit-learn variance (MSE) criterion is external, so the concrete instances below
  run on a stand-in for it that follows the contract section 4.1 of the specification
  gives for an axis criterion: \<open>reset\<close> puts \<open>pos\<close> at \<open>start\<close>, \<open>reverse_reset\<close> at \<open>end\<close>,
  \<open>update\<close> moves the samples of \<open>[pos, new_pos)\<close> to the left and fails outside
  \<open>[start, end]\<close>, the node impurity is the variance form
  \<open>sq_sum_total / weighted_n - (sum_total / weighted_n)\<^sup>2\<close> (for the children, the same
  form over \<open>[start, pos)\<close> and \<open>[pos, end)\<close>), and the improvement is the formula the
  repository quotes as "From the base Criterion" (\<^verbatim>\<open>MSE_Wrapper2DSS.impurity_improvement\<close>).
  The general theorems hold for every criterion class; only the concrete instances use
  this one.
\<close>

definition weight_of :: "real list option \<Rightarrow> nat \<Rightarrow> real" where
  "weight_of w i = (case w of None \<Rightarrow> 1 | Some ws \<Rightarrow> ws ! i)"

definition variance_new :: "int \<Rightarrow> int \<Rightarrow> RegressionCriterion" where
  "variance_new n_out n_samp =
     \<lparr>n_outputs = n_out, n_samples = n_samp, y = [], sample_weight = None,
      sample_indices = [], start = 0, endp = 0, pos = 0, n_node_samples = 0,
      weighted_n_samples = 0, weighted_n_node_samples = 0,
      weighted_n_left = 0, weighted_n_right = 0,
      sq_sum_total = 0, sum_total = replicate (nat n_out) 0,
      sum_left = replicate (nat n_out) 0, sum_right = replicate (nat n_out) 0\<rparr>"

definition variance_reset :: "RegressionCriterion \<Rightarrow> int \<times> RegressionCriterion" where
  "variance_reset s =
     (0, s\<lparr>pos := start s,
           weighted_n_left := 0, weighted_n_right := weighted_n_node_samples s,
           sum_left := map (\<lambda>_. 0) (sum_total s), sum_right := sum_total s\<rparr>)"

definition variance_reverse_reset :: "RegressionCriterion \<Rightarrow> int \<times> RegressionCriterion" where
  "variance_reverse_reset s =
     (0, s\<lparr>pos := endp s,
           weighted_n_left := weighted_n_node_samples s, weighted_n_right := 0,
           sum_left := sum_total s, sum_right := map (\<lambda>_. 0) (sum_total s)\<rparr>)"

definition variance_update :: "nat \<Rightarrow> RegressionCriterion \<Rightarrow> int \<times> RegressionCriterion" where
  "variance_update new_pos s =
     (if new_pos < start s \<or> endp s < new_pos then (-1, s)
      else
        let moved = map (\<lambda>p. sample_indices s ! p) [pos s..<new_pos];
            w = weight_of (sample_weight s);
            left = map (\<lambda>k. sum_left s ! k + (\<Sum>i\<leftarrow>moved. w i * (y s ! i ! k)))
                     [0..<length (sum_left s)];
            wl = weighted_n_left s + (\<Sum>i\<leftarrow>moved. w i)
        in (0, s\<lparr>pos := new_pos,
                 weighted_n_left := wl,
                 weighted_n_right := weighted_n_node_samples s - wl,
                 sum_left := left,
                 sum_right := map (\<lambda>k. sum_total s ! k - left ! k) [0..<length left]\<rparr>))"

definition variance_init ::
  "matrix \<Rightarrow> real list option \<Rightarrow> real \<Rightarrow> nat list \<Rightarrow> nat \<Rightarrow> nat
     \<Rightarrow> RegressionCriterion \<Rightarrow> int \<times> RegressionCriterion" where
  "variance_init y' sw wn idx st en s =
     (let node = map (\<lambda>p. idx ! p) [st..<en];
          w = weight_of sw;
          outs = [0..<nat (n_outputs s)]
      in variance_reset
           (s\<lparr>y := y', sample_weight := sw, sample_indices := idx,
              start := st, endp := en, n_node_samples := int en - int st,
              weighted_n_samples := wn,
              weighted_n_node_samples := (\<Sum>i\<leftarrow>node. w i),
              sq_sum_total := (\<Sum>k\<leftarrow>outs. \<Sum>i\<leftarrow>node. w i * (y' ! i ! k) * (y' ! i ! k)),
              sum_total := map (\<lambda>k. \<Sum>i\<leftarrow>node. w i * (y' ! i ! k)) outs\<rparr>))"

definition variance_node_impurity :: "RegressionCriterion \<Rightarrow> real" where
  "variance_node_impurity s =
     (sq_sum_total s / weighted_n_node_samples s
      - (\<Sum>v\<leftarrow>sum_total s. (v / weighted_n_node_samples s)\<^sup>2))
     / real_of_int (n_outputs s)"

definition variance_children_impurity :: "RegressionCriterion \<Rightarrow> real \<times> real" where
  "variance_children_impurity s =
     (let left = map (\<lambda>p. sample_indices s ! p) [start s..<pos s];
          right = map (\<lambda>p. sample_indices s ! p) [pos s..<endp s];
          w = weight_of (sample_weight s);
          outs = [0..<nat (n_outputs s)];
          sq = (\<lambda>node. \<Sum>k\<leftarrow>outs. \<Sum>i\<leftarrow>node. w i * (y s ! i ! k) * (y s ! i ! k))
      in ((sq left / weighted_n_left s
           - (\<Sum>v\<leftarrow>sum_left s. (v / weighted_n_left s)\<^sup>2)) / real_of_int (n_outputs s),
          (sq right / weighted_n_right s
           - (\<Sum>v\<leftarrow>sum_right s. (v / weighted_n_right s)\<^sup>2)) / real_of_int (n_outputs s)))"

definition variance_impurity_improvement ::
  "real \<Rightarrow> real \<Rightarrow> real \<Rightarrow> RegressionCriterion \<Rightarrow> real" where
  "variance_impurity_improvement impurity_parent impurity_left impurity_right s =
     (weighted_n_node_samples s / weighted_n_samples s)
     * (impurity_parent
        - (weighted_n_right s / weighted_n_node_samples s * impurity_right)
        - (weighted_n_left s / weighted_n_node_samples s * impurity_left))"

definition variance_criterion :: criterion_class where
  "variance_criterion =
     \<lparr>Criterion_new = variance_new,
      Criterion_init = variance_init,
      Criterion_reset = variance_reset,
      Criterion_reverse_reset = variance_reverse_reset,
      Criterion_update = variance_update,
      Criterion_node_impurity = variance_node_impurity,
      Criterion_children_impurity = variance_children_impurity,
      Criterion_impurity_improvement = variance_impurity_improvement\<rparr>"

text \<open>
  A criterion over the three samples \<open>0, 1, 2\<close> with one output column \<open>col\<close>, initialised
  on the node \<open>[0, hi)\<close>.
\<close>

definition column_criterion :: "real list \<Rightarrow> nat \<Rightarrow> criterion_object" where
  "column_criterion col hi =
     \<lparr>cls = variance_criterion,
      state = snd (variance_init (map (\<lambda>v. [v]) col) None 3 [0, 1, 2] 0 hi (variance_new 1 3))\<rparr>"

definition composite_of ::
  "real \<Rightarrow> criterion_object \<Rightarrow> criterion_object \<Rightarrow> SSCompositeCriterion" where
  "composite_of sv s u =
     \<lparr>n_outputs = n_outputs (state s), n_samples = n_samples (state s), y = [],
      sample_weight = None, sample_indices = [], start = 0, endp = 0, pos = 0,
      n_node_samples = 0, weighted_n_samples = 0, weighted_n_node_samples = 0,
      weighted_n_left = 0, weighted_n_right = 0,
      supervision = sv, original_supervision = sv,
      supervised_criterion = s, unsupervised_criterion = u,
      n_features = n_outputs (state u), X = []\<rparr>"

subsection \<open>Construction\<close>

text \<open>
  A criterion argument of \<^verbatim>\<open>__init__\<close> is \<^verbatim>\<open>None\<close>, a criterion class or a criterion
  instance. Classes and instances are truthy, so \<^verbatim>\<open>a or b\<close> is \<open>b\<close> exactly when \<open>a\<close> is
  \<^verbatim>\<open>None\<close>.
\<close>

datatype criterion_arg = PyNone | PyClass criterion_class | PyInstance criterion_object

definition is_None :: "criterion_arg \<Rightarrow> bool" where
  "is_None a = (case a of PyNone \<Rightarrow> True | _ \<Rightarrow> False)"

definition py_or :: "criterion_arg \<Rightarrow> criterion_arg \<Rightarrow> criterion_arg" where
  "py_or a b = (case a of PyNone \<Rightarrow> b | _ \<Rightarrow> a)"

text \<open>
  \<^verbatim>\<open>if isinstance(c, type): ... c = c(n_outputs=n, n_samples=n_samples)\<close>; \<^verbatim>\<open>not n\<close> on an
  integer is \<open>n = 0\<close>.
\<close>

definition instantiate :: "criterion_arg \<Rightarrow> int \<Rightarrow> int \<Rightarrow> error + criterion_arg" where
  "instantiate c n n_samp =
     (case c of
        PyClass K \<Rightarrow>
          if n = 0 \<or> n_samp = 0 then Inl ValueError
          else Inr (PyInstance \<lparr>cls = K, state = Criterion_new K n n_samp\<rparr>)
      | _ \<Rightarrow> Inr c)"

text \<open>
  \<^verbatim>\<open>SSCompositeCriterion.__init__\<close>. The first argument holds the attributes a subclass adds
  to the object; every C attribute the constructor does not assign starts at zero.
\<close>

definition SSCompositeCriterion_new ::
  "'a \<Rightarrow> real \<Rightarrow> int \<Rightarrow> int \<Rightarrow> int \<Rightarrow> criterion_arg \<Rightarrow> criterion_arg \<Rightarrow> criterion_arg
     \<Rightarrow> error + 'a SSCompositeCriterion_scheme" where
  "SSCompositeCriterion_new subclass_attributes supervision' n_outputs' n_features' n_samples'
       criterion' supervised_criterion' unsupervised_criterion' =
     (if \<not> (0 \<le> supervision' \<and> supervision' \<le> 1) then Inl ValueError
      else if is_None criterion'
              \<and> (is_None supervised_criterion' \<or> is_None unsupervised_criterion')
      then Inl ValueError
      else
        (case instantiate (py_or supervised_criterion' criterion') n_outputs' n_samples' of
           Inl e \<Rightarrow> Inl e
         | Inr s \<Rightarrow>
             (case instantiate (py_or unsupervised_criterion' criterion') n_features' n_samples' of
                Inl e \<Rightarrow> Inl e
              | Inr u \<Rightarrow>
                  (case (s, u) of
                     (PyInstance so, PyInstance uo) \<Rightarrow>
                       Inr \<lparr>n_outputs = n_outputs (state so),
                            n_samples = n_samples (state so),
                            y = [], sample_weight = None, sample_indices = [],
                            start = 0, endp = 0, pos = 0, n_node_samples = 0,
                            weighted_n_samples = 0, weighted_n_node_samples = 0,
                            weighted_n_left = 0, weighted_n_right = 0,
                            supervision = supervision',
                            original_supervision = supervision',
                            supervised_criterion = so,
                            unsupervised_criterion = uo,
                            n_features = n_outputs (state uo),
                            X = [],
                            \<dots> = subclass_attributes\<rparr>
                   | _ \<Rightarrow> Inl AttributeError))))"

section \<open>SingleFeatureSSCompositeCriterion\<close>

record SingleFeatureSSCompositeCriterion = SSCompositeCriterion +
  full_X :: matrix
  current_feature :: int
  current_node_impurity :: real

datatype warning = NFeaturesWillBeChanged int

text \<open>
  \<^verbatim>\<open>SingleFeatureSSCompositeCriterion.__init__\<close>: the warnings it emits, and the object or
  the exception.
\<close>

definition SingleFeatureSSCompositeCriterion_new ::
  "real \<Rightarrow> criterion_arg \<Rightarrow> criterion_arg \<Rightarrow> criterion_arg \<Rightarrow> int \<Rightarrow> int \<Rightarrow> int
     \<Rightarrow> warning list \<times> (error + SingleFeatureSSCompositeCriterion)" where
  "SingleFeatureSSCompositeCriterion_new supervision' criterion' supervised_criterion'
       unsupervised_criterion' n_outputs' n_features' n_samples' =
     (if n_features' \<noteq> 1 then [NFeaturesWillBeChanged n_features'] else [],
      case SSCompositeCriterion_new
             (SingleFeatureSSCompositeCriterion.fields [] 0 0)
             supervision' n_outputs' 1 n_samples'
             criterion' supervised_criterion' unsupervised_criterion' of
        Inl e \<Rightarrow> Inl e
      | Inr self \<Rightarrow>
          if n_outputs (state (unsupervised_criterion self)) \<noteq> 1 then Inl ValueError
          else Inr self)"

text \<open>
  A Python slice \<^verbatim>\<open>xs[lo:hi]\<close> with both bounds given: a negative bound counts from the
  end, and every bound is clipped to the list.
\<close>

definition slice_bound :: "nat \<Rightarrow> int \<Rightarrow> nat" where
  "slice_bound n i = (if i < 0 then nat (max 0 (int n + i)) else min (nat i) n)"

definition py_slice :: "int \<Rightarrow> int \<Rightarrow> 'a list \<Rightarrow> 'a list" where
  "py_slice lo hi xs =
     (let a = slice_bound (length xs) lo; b = slice_bound (length xs) hi
      in take (b - a) (drop a xs))"

text \<open>
  \<^verbatim>\<open>set_feature\<close>. The return code \<open>-1\<close> stands for the exception of a failed
  \<^verbatim>\<open>unsupervised_criterion.init\<close>, which leaves the cached impurity as it was.
\<close>

definition SingleFeatureSSCompositeCriterion_set_feature ::
  "int \<Rightarrow> SingleFeatureSSCompositeCriterion \<Rightarrow> int \<times> SingleFeatureSSCompositeCriterion" where
  "SingleFeatureSSCompositeCriterion_set_feature new_feature self =
     (let self1 = self\<lparr>current_feature := new_feature\<rparr>;
          self2 = self1\<lparr>X := map (py_slice new_feature (new_feature + 1)) (full_X self1)\<rparr>
      in case call_init (unsupervised_criterion self2) (X self2) (sample_weight self2)
                (weighted_n_samples self2) (sample_indices self2) (start self2) (endp self2) of
           (rc, u) \<Rightarrow>
             let self3 = self2\<lparr>unsupervised_criterion := u\<rparr> in
             if rc = -1 then (-1, self3)
             else (0, self3\<lparr>current_node_impurity := SSCompositeCriterion_node_impurity self3\<rparr>))"

definition SingleFeatureSSCompositeCriterion_impurity_improvement ::
  "SingleFeatureSSCompositeCriterion \<Rightarrow> real \<Rightarrow> real \<Rightarrow> real \<Rightarrow> real" where
  "SingleFeatureSSCompositeCriterion_impurity_improvement self
       impurity_parent impurity_left impurity_right =
     SSCompositeCriterion_impurity_improvement self
       (current_node_impurity self) impurity_left impurity_right"

text \<open>
  A single-feature composite over the three samples \<open>0, 1, 2\<close>, as \<^verbatim>\<open>init\<close> leaves it on
  the node \<open>[0, 3)\<close> with the feature matrix \<open>fx\<close>.
\<close>

definition single_feature_of ::
  "real \<Rightarrow> criterion_object \<Rightarrow> criterion_object \<Rightarrow> matrix \<Rightarrow> SingleFeatureSSCompositeCriterion"
  where
  "single_feature_of sv s u fx =
     \<lparr>n_outputs = n_outputs (state s), n_samples = n_samples (state s), y = [],
      sample_weight = None, sample_indices = [0, 1, 2], start = 0, endp = 3, pos = 0,
      n_node_samples = 3, weighted_n_samples = 3, weighted_n_node_samples = 3,
      weighted_n_left = 0, weighted_n_right = 3,
      supervision = sv, original_supervision = sv,
      supervised_criterion = s, unsupervised_criterion = u,
      n_features = n_outputs (state u), X = [],
      full_X = fx, current_feature = 0, current_node_impurity = 0\<rparr>"

definition two_columns :: SingleFeatureSSCompositeCriterion where
  "two_columns =
     single_feature_of (1 / 4) (column_criterion [1, 2, 3] 3) (column_criterion [0, 0, 0] 3)
       [[1, 0], [2, 0], [3, 3]]"

section \<open>MSE_Wrapper2DSS\<close>

text \<open>
  The semi-supervised wrapper of \<^verbatim>\<open>_semisupervised_criterion.pyx\<close> reaches its two
  composites through \<^verbatim>\<open>self.splitter_rows.criterion\<close> and \<^verbatim>\<open>self.splitter_cols.criterion\<close>.
  Of the scikit-learn \<^verbatim>\<open>Splitter\<close> only that attribute is used.
\<close>

record Splitter =
  criterion :: SSCompositeCriterion

record MSE_Wrapper2DSS =
  splitter_rows :: Splitter
  splitter_cols :: Splitter
  weighted_n_samples :: real
  weighted_n_node_samples :: real

text \<open>
  \<^verbatim>\<open>_get_criterion\<close> declares the local \<^verbatim>\<open>ss_criterion\<close> and assigns it under two \<^verbatim>\<open>if\<close>s
  with no \<^verbatim>\<open>else\<close>; reading a local that was never assigned raises \<^verbatim>\<open>UnboundLocalError\<close>.
\<close>

definition MSE_Wrapper2DSS_get_criterion :: "MSE_Wrapper2DSS \<Rightarrow> int \<Rightarrow> error + criterion_object"
  where
  "MSE_Wrapper2DSS_get_criterion self axis =
     (let ss_criterion = None;
          ss_criterion = (if axis = 1 then Some (criterion (splitter_cols self))
                          else ss_criterion);
          ss_criterion = (if axis = 0 then Some (criterion (splitter_rows self))
                          else ss_criterion)
      in case ss_criterion of
           None \<Rightarrow> Inl UnboundLocalError
         | Some c \<Rightarrow> Inr (supervised_criterion c))"

text \<open>
  \<^verbatim>\<open>impurity_improvement\<close> is a \<^verbatim>\<open>cdef double ... nogil\<close> method with no \<^verbatim>\<open>except\<close> clause: the
  exception of \<^verbatim>\<open>_get_criterion\<close> and that of a zero divisor end in it.
\<close>

definition MSE_Wrapper2DSS_impurity_improvement ::
  "MSE_Wrapper2DSS \<Rightarrow> real \<Rightarrow> real \<Rightarrow> real \<Rightarrow> int \<Rightarrow> error option \<times> real" where
  "MSE_Wrapper2DSS_impurity_improvement self impurity_parent impurity_left impurity_right axis =
     unraisable
       (case MSE_Wrapper2DSS_get_criterion self axis of
          Inl e \<Rightarrow> Inl e
        | Inr crit \<Rightarrow>
            let wnl = weighted_n_left (state crit);
                wnr = weighted_n_right (state crit)
            in if MSE_Wrapper2DSS.weighted_n_samples self = 0
                  \<or> MSE_Wrapper2DSS.weighted_n_node_samples self = 0
               then Inl ZeroDivisionError
               else Inr ((MSE_Wrapper2DSS.weighted_n_node_samples self
                            / MSE_Wrapper2DSS.weighted_n_samples self)
                         * (impurity_parent
                            - (wnr / MSE_Wrapper2DSS.weighted_n_node_samples self * impurity_right)
                            - (wnl / MSE_Wrapper2DSS.weighted_n_node_samples self * impurity_left))))"

text \<open>\<^verbatim>\<open>ss_impurity\<close>, a \<^verbatim>\<open>cdef double\<close> method with no \<^verbatim>\<open>except\<close> clause.\<close>

definition MSE_Wrapper2DSS_ss_impurity ::
  "MSE_Wrapper2DSS \<Rightarrow> real \<Rightarrow> real \<Rightarrow> real \<Rightarrow> error option \<times> real" where
  "MSE_Wrapper2DSS_ss_impurity self u_imp_rows u_imp_cols s_imp =
     (let ss_criterion_rows = criterion (splitter_rows self);
          ss_criterion_cols = criterion (splitter_cols self);
          ur_criterion = unsupervised_criterion ss_criterion_rows;
          uc_criterion = unsupervised_criterion ss_criterion_cols;
          sup_rows = supervision ss_criterion_rows;
          sup_cols = supervision ss_criterion_cols;
          n_row_features = Criterion.n_outputs (state ur_criterion);
          n_col_features = Criterion.n_outputs (state uc_criterion);
          n_features = n_row_features + n_col_features
      in unraisable
           (case cdiv (real_of_int n_row_features * (1 - sup_rows)) (real_of_int n_features) of
              Inl e \<Rightarrow> Inl e
            | Inr wur \<Rightarrow>
                (case cdiv (real_of_int n_col_features * (1 - sup_cols))
                        (real_of_int n_features) of
                   Inl e \<Rightarrow> Inl e
                 | Inr wuc \<Rightarrow>
                     let u_imp = wur * u_imp_rows + wuc * u_imp_cols;
                         s_imp = s_imp * (sup_rows + sup_cols)
                     in Inr (u_imp + s_imp / 2))))"

text \<open>
  \<^verbatim>\<open>_node_impurity\<close> (which \<^verbatim>\<open>node_impurity\<close> calls under the GIL) returns what
  \<^verbatim>\<open>ss_impurity\<close> returns to it. The supervised impurity comes from
  \<^verbatim>\<open>MSE_Wrapper2D.node_impurity\<close>, a method of a base class that is not in the sources: it
  is the parameter \<open>MSE_Wrapper2D_node_impurity\<close>.
\<close>

definition MSE_Wrapper2DSS_node_impurity ::
  "(MSE_Wrapper2DSS \<Rightarrow> real) \<Rightarrow> MSE_Wrapper2DSS \<Rightarrow> error option \<times> real" where
  "MSE_Wrapper2DSS_node_impurity MSE_Wrapper2D_node_impurity self =
     (let s_imp = MSE_Wrapper2D_node_impurity self;
          ss_criterion_rows = criterion (splitter_rows self);
          ss_criterion_cols = criterion (splitter_cols self);
          ur_criterion = unsupervised_criterion ss_criterion_rows;
          uc_criterion = unsupervised_criterion ss_criterion_cols;
          u_imp_rows = call_node_impurity ur_criterion;
          u_imp_cols = call_node_impurity uc_criterion
      in MSE_Wrapper2DSS_ss_impurity self u_imp_rows u_imp_cols s_imp)"

text \<open>A wrapper over two composites, for the concrete instances.\<close>

definition wrapper_of :: "SSCompositeCriterion \<Rightarrow> SSCompositeCriterion \<Rightarrow> MSE_Wrapper2DSS" where
  "wrapper_of rows cols =
     \<lparr>splitter_rows = \<lparr>criterion = rows\<rparr>, splitter_cols = \<lparr>criterion = cols\<rparr>,
      weighted_n_samples = 9, weighted_n_node_samples = 9\<rparr>"

section \<open>Bipartite criteria\<close>

text \<open>
  \<^verbatim>\<open>BipartiteCriterion\<close> (\<^verbatim>\<open>_nd_criterion.pyx\<close>) coordinates one criterion per axis. The
  attributes \<^verbatim>\<open>start\<close> and \<^verbatim>\<open>end\<close> are C arrays of two positions, rows first: pairs here.
  The record is shared by the variants; \<open>'c\<close> is the type of the axis criteria.
\<close>

record 'c BipartiteCriterion =
  criterion_rows :: 'c
  criterion_cols :: 'c
  n_rows :: int
  n_cols :: int
  n_outputs_rows :: int
  n_outputs_cols :: int
  n_outputs :: int
  X_rows :: matrix
  X_cols :: matrix
  y :: matrix
  row_weights :: "real list option"
  col_weights :: "real list option"
  weighted_n_rows :: real
  weighted_n_cols :: real
  weighted_n_samples :: real
  row_indices :: "nat list"
  col_indices :: "nat list"
  start :: "nat \<times> nat"
  endp :: "nat \<times> nat"
  weighted_n_node_samples :: real
  weighted_n_node_rows :: real
  weighted_n_node_cols :: real
  sq_sum_total :: real
  sum_total :: "real list"

subsection \<open>RegressionCriterionGSO\<close>

text \<open>
  \<^verbatim>\<open>y_row_sums\<close> and \<^verbatim>\<open>y_col_sums\<close> have shape \<open>(n, 1)\<close> and \<^verbatim>\<open>init\<close> goes through them
  with a pointer to their first entry: lists of reals, turned into one-column matrices
  when they are handed to the axis criteria.
\<close>

record RegressionCriterionGSO = "criterion_object BipartiteCriterion" +
  n_node_rows :: int
  n_node_cols :: int
  y_row_sums :: "real list"
  y_col_sums :: "real list"

text \<open>
  The frame of \<^verbatim>\<open>init\<close>: the object together with the local variables its loops assign
  (\<open>local_sum_total\<close> and \<open>local_sq_sum_total\<close> are the locals \<^verbatim>\<open>sum_total\<close> and
  \<^verbatim>\<open>sq_sum_total\<close>). The loops read the arguments \<^verbatim>\<open>y\<close>, \<^verbatim>\<open>row_indices\<close>, \<^verbatim>\<open>col_indices\<close>,
  \<^verbatim>\<open>row_weights\<close> and \<^verbatim>\<open>col_weights\<close>, which \<^verbatim>\<open>init\<close> has just stored in the attributes of
  the same names. The module is compiled with \<^verbatim>\<open>boundscheck=False\<close>: an index outside its
  array is undefined in the source, and the theorems below speak of nodes whose indices
  are inside.
\<close>

record init_frame = RegressionCriterionGSO +
  wi :: real
  wj :: real
  local_sum_total :: real
  local_sq_sum_total :: real
  is_first_row :: bool

text \<open>The body of the inner loop \<^verbatim>\<open>for q in range(start_col, end_col)\<close>, in row \<open>i\<close>.\<close>

definition init_col_step :: "nat \<Rightarrow> nat \<Rightarrow> init_frame \<Rightarrow> init_frame" where
  "init_col_step i q f =
     (let j = col_indices f ! q;
          f = (if is_first_row f then f\<lparr>y_col_sums := (y_col_sums f)[j := 0]\<rparr> else f);
          f = (case col_weights f of
                 None \<Rightarrow> f
               | Some cw \<Rightarrow>
                   let f = f\<lparr>wj := cw ! j\<rparr> in
                   if is_first_row f
                   then f\<lparr>weighted_n_node_cols := weighted_n_node_cols f + wj f\<rparr>
                   else f);
          y_ij = BipartiteCriterion.y f ! i ! j;
          w_y_ij = wi f * wj f * y_ij;
          f = f\<lparr>y_row_sums := (y_row_sums f)[i := y_row_sums f ! i + wj f * y_ij]\<rparr>;
          f = f\<lparr>y_col_sums := (y_col_sums f)[j := y_col_sums f ! j + wi f * y_ij]\<rparr>
      in f\<lparr>local_sum_total := local_sum_total f + w_y_ij,
            local_sq_sum_total := local_sq_sum_total f + w_y_ij * y_ij\<rparr>)"

text \<open>The body of the outer loop \<^verbatim>\<open>for p in range(start_row, end_row)\<close>.\<close>

definition init_row_step :: "nat \<Rightarrow> nat \<Rightarrow> nat \<Rightarrow> init_frame \<Rightarrow> init_frame" where
  "init_row_step start_col end_col p f =
     (let i = row_indices f ! p;
          f = f\<lparr>y_row_sums := (y_row_sums f)[i := 0]\<rparr>;
          f = (case row_weights f of
                 None \<Rightarrow> f
               | Some rw \<Rightarrow>
                   let f = f\<lparr>wi := rw ! i\<rparr> in
                   f\<lparr>weighted_n_node_rows := weighted_n_node_rows f + wi f\<rparr>);
          f = fold (init_col_step i) [start_col..<end_col] f
      in if is_first_row f then f\<lparr>is_first_row := False\<rparr> else f)"

text \<open>
  \<^verbatim>\<open>_init_child_criterion\<close>: the axis criterion with its attributes assigned and
  \<^verbatim>\<open>reset()\<close> called, and the return code (\<open>-1\<close> when \<^verbatim>\<open>reset\<close> fails).
\<close>

definition RegressionCriterionGSO_init_child_criterion ::
  "'a RegressionCriterionGSO_scheme \<Rightarrow> criterion_object \<Rightarrow> matrix \<Rightarrow> real list option
     \<Rightarrow> nat list \<Rightarrow> nat \<Rightarrow> nat \<Rightarrow> int \<Rightarrow> real \<Rightarrow> real \<Rightarrow> int \<times> criterion_object" where
  "RegressionCriterionGSO_init_child_criterion self child y' sample_weight' sample_indices'
       start' end' n_node_samples' weighted_n_samples' weighted_n_node_samples' =
     (let st = state child;
          st = st\<lparr>Criterion.y := y',
                  sample_weight := sample_weight',
                  sample_indices := sample_indices',
                  Criterion.start := start',
                  Criterion.endp := end',
                  n_node_samples := n_node_samples',
                  Criterion.weighted_n_samples := weighted_n_samples',
                  Criterion.weighted_n_node_samples := weighted_n_node_samples'\<rparr>;
          st = st\<lparr>RegressionCriterion.sum_total :=
                    (RegressionCriterion.sum_total st)[0 := BipartiteCriterion.sum_total self ! 0]\<rparr>;
          st = st\<lparr>RegressionCriterion.sq_sum_total := BipartiteCriterion.sq_sum_total self\<rparr>
      in case call_reset (child\<lparr>state := st\<rparr>) of
           (rc, c) \<Rightarrow> (if rc = -1 then -1 else 0, c))"

text \<open>
  \<^verbatim>\<open>RegressionCriterionGSO.init\<close>, in the three parts of its body. First the block under
  \<^verbatim>\<open># Initialize fields\<close>, up to the starting values of \<^verbatim>\<open>weighted_n_node_rows\<close> and
  \<^verbatim>\<open>weighted_n_node_cols\<close>.
\<close>

definition init_fields ::
  "matrix \<Rightarrow> matrix \<Rightarrow> matrix \<Rightarrow> real list option \<Rightarrow> real list option \<Rightarrow> real \<Rightarrow> real
     \<Rightarrow> nat list \<Rightarrow> nat list \<Rightarrow> nat \<times> nat \<Rightarrow> nat \<times> nat
     \<Rightarrow> RegressionCriterionGSO \<Rightarrow> RegressionCriterionGSO" where
  "init_fields X_rows' X_cols' y' row_weights' col_weights'
       weighted_n_rows' weighted_n_cols' row_indices' col_indices' start' end' self =
     (let start_row = fst start'; start_col = snd start';
          end_row = fst end'; end_col = snd end';
          self = self\<lparr>X_rows := X_rows', X_cols := X_cols', BipartiteCriterion.y := y',
                      row_weights := row_weights', col_weights := col_weights',
                      weighted_n_rows := weighted_n_rows', weighted_n_cols := weighted_n_cols',
                      BipartiteCriterion.weighted_n_samples := weighted_n_rows' * weighted_n_cols',
                      row_indices := row_indices', col_indices := col_indices',
                      BipartiteCriterion.start := (start_row, start_col),
                      BipartiteCriterion.endp := (end_row, end_col),
                      n_node_rows := int end_row - int start_row,
                      n_node_cols := int end_col - int start_col\<rparr>;
          self = self\<lparr>weighted_n_node_rows :=
                        (if row_weights self = None then real_of_int (n_node_rows self) else 0)\<rparr>
      in self\<lparr>weighted_n_node_cols :=
                 (if col_weights self = None then real_of_int (n_node_cols self) else 0)\<rparr>)"

text \<open>
  Then the two nested loops, entered with \<^verbatim>\<open>sum_total = 0.0\<close>, \<^verbatim>\<open>sq_sum_total = 0.0\<close>,
  \<^verbatim>\<open>wi = wj = 1.0\<close> and \<^verbatim>\<open>is_first_row = True\<close>, and the three assignments after them.
\<close>

definition init_sums ::
  "nat \<times> nat \<Rightarrow> nat \<times> nat \<Rightarrow> RegressionCriterionGSO \<Rightarrow> RegressionCriterionGSO" where
  "init_sums start' end' self =
     (let start_row = fst start'; start_col = snd start';
          end_row = fst end'; end_col = snd end';
          f = fold (init_row_step start_col end_col) [start_row..<end_row]
                (RegressionCriterionGSO.extend self (init_frame.fields 1 1 0 0 True));
          self = RegressionCriterionGSO.truncate f;
          self = self\<lparr>BipartiteCriterion.sq_sum_total := local_sq_sum_total f\<rparr>;
          self = self\<lparr>BipartiteCriterion.sum_total :=
                        (BipartiteCriterion.sum_total self)[0 := local_sum_total f]\<rparr>
      in self\<lparr>BipartiteCriterion.weighted_n_node_samples :=
                 weighted_n_node_rows self * weighted_n_node_cols self\<rparr>)"

text \<open>Last the two calls of \<^verbatim>\<open>_init_child_criterion\<close>; a failing call ends \<^verbatim>\<open>init\<close>.\<close>

definition init_children :: "RegressionCriterionGSO \<Rightarrow> int \<times> RegressionCriterionGSO" where
  "init_children self =
     (case RegressionCriterionGSO_init_child_criterion self (criterion_rows self)
             (map (\<lambda>v. [v]) (y_row_sums self)) (row_weights self) (row_indices self)
             (fst (BipartiteCriterion.start self)) (fst (BipartiteCriterion.endp self))
             (n_node_rows self) (weighted_n_rows self) (weighted_n_node_rows self) of
        (rc, c) \<Rightarrow>
          let self = self\<lparr>criterion_rows := c\<rparr> in
          if rc = -1 then (-1, self)
          else (case RegressionCriterionGSO_init_child_criterion self (criterion_cols self)
                       (map (\<lambda>v. [v]) (y_col_sums self)) (col_weights self) (col_indices self)
                       (snd (BipartiteCriterion.start self)) (snd (BipartiteCriterion.endp self))
                       (n_node_cols self) (weighted_n_cols self) (weighted_n_node_cols self) of
                  (rc, c) \<Rightarrow>
                    let self = self\<lparr>criterion_cols := c\<rparr> in
                    if rc = -1 then (-1, self) else (0, self)))"

definition RegressionCriterionGSO_init ::
  "matrix \<Rightarrow> matrix \<Rightarrow> matrix \<Rightarrow> real list option \<Rightarrow> real list option \<Rightarrow> real \<Rightarrow> real
     \<Rightarrow> nat list \<Rightarrow> nat list \<Rightarrow> nat \<times> nat \<Rightarrow> nat \<times> nat
     \<Rightarrow> RegressionCriterionGSO \<Rightarrow> int \<times> RegressionCriterionGSO" where
  "RegressionCriterionGSO_init X_rows' X_cols' y' row_weights' col_weights'
       weighted_n_rows' weighted_n_cols' row_indices' col_indices' start' end' self =
     init_children
       (init_sums start' end'
          (init_fields X_rows' X_cols' y' row_weights' col_weights'
             weighted_n_rows' weighted_n_cols' row_indices' col_indices' start' end' self))"

text \<open>\<^verbatim>\<open>_get_criterion\<close>, the same in \<^verbatim>\<open>RegressionCriterionGSO\<close> and in \<^verbatim>\<open>GMO\<close>.\<close>

definition BipartiteCriterion_get_criterion ::
  "('c, 'a) BipartiteCriterion_scheme \<Rightarrow> int \<Rightarrow> error + 'c" where
  "BipartiteCriterion_get_criterion self axis =
     (if axis = 0 then Inr (criterion_rows self)
      else if axis = 1 then Inr (criterion_cols self)
      else Inl InvalidAxisError)"

text \<open>
  \<^verbatim>\<open>_get_criterion\<close> is declared \<^verbatim>\<open>except NULL\<close> and hands \<^verbatim>\<open>InvalidAxisError\<close> to its caller.
  Its callers \<^verbatim>\<open>impurity_improvement\<close> and \<^verbatim>\<open>children_impurity\<close>, here and in \<^verbatim>\<open>GMO\<close>, and
  \<^verbatim>\<open>SquaredErrorGSO.node_impurity\<close> are \<^verbatim>\<open>cdef double\<close> or \<^verbatim>\<open>cdef void\<close> methods declared
  \<^verbatim>\<open>nogil\<close> with no \<^verbatim>\<open>except\<close> clause: that exception and the one of a zero divisor end in
  them.

  \<^verbatim>\<open>RegressionCriterionGSO.impurity_improvement\<close>. After \<^verbatim>\<open>_get_criterion\<close> has returned, the
  axis is \<open>0\<close> or \<open>1\<close>; the last branch is never taken.
\<close>

definition RegressionCriterionGSO_impurity_improvement ::
  "'a RegressionCriterionGSO_scheme \<Rightarrow> real \<Rightarrow> real \<Rightarrow> real \<Rightarrow> int \<Rightarrow> error option \<times> real"
  where
  "RegressionCriterionGSO_impurity_improvement self impurity_parent impurity_left impurity_right axis =
     unraisable
       (case BipartiteCriterion_get_criterion self axis of
          Inl e \<Rightarrow> Inl e
        | Inr c \<Rightarrow>
            let imp = call_impurity_improvement c impurity_parent impurity_left impurity_right in
            if axis = 0 then cdiv (imp * weighted_n_node_cols self) (weighted_n_cols self)
            else if axis = 1 then cdiv (imp * weighted_n_node_rows self) (weighted_n_rows self)
            else Inr 0)"

subsection \<open>SquaredErrorGSO and FriedmanGSO\<close>

definition SquaredErrorGSO_node_impurity ::
  "'a RegressionCriterionGSO_scheme \<Rightarrow> error option \<times> real" where
  "SquaredErrorGSO_node_impurity self =
     unraisable
       (case cdiv (BipartiteCriterion.sq_sum_total self)
               (BipartiteCriterion.weighted_n_node_samples self) of
          Inl e \<Rightarrow> Inl e
        | Inr mean_sq \<Rightarrow>
            (case cdiv (BipartiteCriterion.sum_total self ! 0)
                    (BipartiteCriterion.weighted_n_node_samples self) of
               Inl e \<Rightarrow> Inl e
             | Inr mean \<Rightarrow> Inr (mean_sq - mean\<^sup>2)))"

text \<open>
  The loops of \<^verbatim>\<open>SquaredErrorGSO.children_impurity\<close> carry \<open>(wi, wj, sq_sum_left)\<close>. The
  method writes its two results through the pointers \<^verbatim>\<open>impurity_left\<close> and
  \<^verbatim>\<open>impurity_right\<close>; \<open>out\<close> is what the two cells hold before the call, and the result is
  what they hold after it. The left cell is written before the right one is computed.
\<close>

definition children_col_step ::
  "'a RegressionCriterionGSO_scheme \<Rightarrow> nat \<Rightarrow> nat \<Rightarrow> real \<times> real \<times> real \<Rightarrow> real \<times> real \<times> real"
  where
  "children_col_step self i q acc =
     (case acc of
        (wi', wj', sq_sum_left) \<Rightarrow>
          let j = col_indices self ! q;
              wj' = (case col_weights self of None \<Rightarrow> wj' | Some cw \<Rightarrow> cw ! j);
              y_ij = BipartiteCriterion.y self ! i ! j
          in (wi', wj', sq_sum_left + wi' * wj' * y_ij * y_ij))"

definition children_row_step ::
  "'a RegressionCriterionGSO_scheme \<Rightarrow> nat \<Rightarrow> nat \<Rightarrow> nat \<Rightarrow> real \<times> real \<times> real
     \<Rightarrow> real \<times> real \<times> real" where
  "children_row_step self start_col end_col p acc =
     (case acc of
        (wi', wj', sq_sum_left) \<Rightarrow>
          let i = row_indices self ! p;
              wi' = (case row_weights self of None \<Rightarrow> wi' | Some rw \<Rightarrow> rw ! i)
          in fold (children_col_step self i) [start_col..<end_col] (wi', wj', sq_sum_left))"

definition SquaredErrorGSO_children_impurity ::
  "'a RegressionCriterionGSO_scheme \<Rightarrow> int \<Rightarrow> real \<times> real \<Rightarrow> error option \<times> real \<times> real" where
  "SquaredErrorGSO_children_impurity self axis out =
     (case BipartiteCriterion_get_criterion self axis of
        Inl e \<Rightarrow> (Some e, out)
      | Inr c \<Rightarrow>
          let end' = BipartiteCriterion.endp self;
              start' = BipartiteCriterion.start self;
              weighted_n_node_other =
                (if axis = 0 then weighted_n_node_cols self else weighted_n_node_rows self);
              sum_left' = sum_left (state c) ! 0;
              sum_right' = sum_right (state c) ! 0;
              weighted_n_left' = weighted_n_left (state c) * weighted_n_node_other;
              weighted_n_right' = weighted_n_right (state c) * weighted_n_node_other;
              end' = (if axis = 0 then (pos (state c), snd end') else (fst end', pos (state c)));
              sq_sum_left =
                snd (snd (fold (children_row_step self (snd start') (snd end'))
                            [fst start'..<fst end'] (1, 1, 0)));
              sq_sum_right = BipartiteCriterion.sq_sum_total self - sq_sum_left
          in (case cdiv (sum_left' * sum_left') weighted_n_left' of
                Inl e \<Rightarrow> (Some e, out)
              | Inr ml \<Rightarrow>
                  (case cdiv (sq_sum_left - ml) weighted_n_left' of
                     Inl e \<Rightarrow> (Some e, out)
                   | Inr impurity_left \<Rightarrow>
                       (case cdiv (sum_right' * sum_right') weighted_n_right' of
                          Inl e \<Rightarrow> (Some e, (impurity_left, snd out))
                        | Inr mr \<Rightarrow>
                            (case cdiv (sq_sum_right - mr) weighted_n_right' of
                               Inl e \<Rightarrow> (Some e, (impurity_left, snd out))
                             | Inr impurity_right \<Rightarrow>
                                 (None, (impurity_left, impurity_right)))))))"

definition FriedmanGSO_impurity_improvement ::
  "'a RegressionCriterionGSO_scheme \<Rightarrow> real \<Rightarrow> real \<Rightarrow> real \<Rightarrow> int \<Rightarrow> error option \<times> real"
  where
  "FriedmanGSO_impurity_improvement self impurity_parent impurity_left impurity_right axis =
     unraisable
       (case BipartiteCriterion_get_criterion self axis of
          Inl e \<Rightarrow> Inl e
        | Inr c \<Rightarrow>
            let imp = call_impurity_improvement c impurity_parent impurity_left impurity_right in
            if axis = 0 then cdiv imp (weighted_n_node_cols self)
            else if axis = 1 then cdiv imp (weighted_n_node_rows self)
            else Inr 0)"

subsection \<open>What init is to compute\<close>

text \<open>
  The marginal sums and totals as section 4.4 of the specification writes them:
  \<open>row_sum[i] = \<Sum>\<^sub>j w\<^sub>j Y[i,j]\<close> over the node's columns, \<open>col_sum[j] = \<Sum>\<^sub>i w\<^sub>i Y[i,j]\<close> over
  the node's rows, \<open>sum_total = \<Sum>\<^sub>i\<^sub>j w\<^sub>i w\<^sub>j Y[i,j]\<close> and \<open>sq_sum_total = \<Sum>\<^sub>i\<^sub>j w\<^sub>i w\<^sub>j Y[i,j]\<^sup>2\<close>.
  An absent weight array stands for weights \<open>1\<close>.
\<close>

definition spec_row_sum :: "matrix \<Rightarrow> real list option \<Rightarrow> nat list \<Rightarrow> nat \<Rightarrow> nat \<Rightarrow> nat \<Rightarrow> real" where
  "spec_row_sum Y cw cidx start_col end_col i =
     (\<Sum>q\<leftarrow>[start_col..<end_col]. weight_of cw (cidx ! q) * (Y ! i ! (cidx ! q)))"

definition spec_col_sum :: "matrix \<Rightarrow> real list option \<Rightarrow> nat list \<Rightarrow> nat \<Rightarrow> nat \<Rightarrow> nat \<Rightarrow> real" where
  "spec_col_sum Y rw ridx start_row end_row j =
     (\<Sum>p\<leftarrow>[start_row..<end_row]. weight_of rw (ridx ! p) * (Y ! (ridx ! p) ! j))"

definition spec_sum_total ::
  "matrix \<Rightarrow> real list option \<Rightarrow> real list option \<Rightarrow> nat list \<Rightarrow> nat list
     \<Rightarrow> nat \<times> nat \<Rightarrow> nat \<times> nat \<Rightarrow> real" where
  "spec_sum_total Y rw cw ridx cidx start' end' =
     (\<Sum>p\<leftarrow>[fst start'..<fst end']. \<Sum>q\<leftarrow>[snd start'..<snd end'].
        weight_of rw (ridx ! p) * weight_of cw (cidx ! q) * (Y ! (ridx ! p) ! (cidx ! q)))"

definition spec_sq_sum_total ::
  "matrix \<Rightarrow> real list option \<Rightarrow> real list option \<Rightarrow> nat list \<Rightarrow> nat list
     \<Rightarrow> nat \<times> nat \<Rightarrow> nat \<times> nat \<Rightarrow> real" where
  "spec_sq_sum_total Y rw cw ridx cidx start' end' =
     (\<Sum>p\<leftarrow>[fst start'..<fst end']. \<Sum>q\<leftarrow>[snd start'..<snd end'].
        weight_of rw (ridx ! p) * weight_of cw (cidx ! q) * (Y ! (ridx ! p) ! (cidx ! q))\<^sup>2)"

text \<open>
  A node whose indices are inside the arrays \<^verbatim>\<open>init\<close> reads and writes: it has a row, its
  column indices are distinct, and the object's \<^verbatim>\<open>sum_total\<close> has its one entry.
\<close>

definition weight_in_bounds :: "real list option \<Rightarrow> nat \<Rightarrow> bool" where
  "weight_in_bounds w i = (case w of None \<Rightarrow> True | Some ws \<Rightarrow> i < length ws)"

definition node_in_bounds ::
  "matrix \<Rightarrow> real list option \<Rightarrow> real list option \<Rightarrow> nat list \<Rightarrow> nat list
     \<Rightarrow> nat \<times> nat \<Rightarrow> nat \<times> nat \<Rightarrow> RegressionCriterionGSO \<Rightarrow> bool" where
  "node_in_bounds Y rw cw ridx cidx start' end' self =
     (fst start' < fst end' \<and> fst end' \<le> length ridx \<and> snd end' \<le> length cidx
      \<and> distinct (map (\<lambda>q. cidx ! q) [snd start'..<snd end'])
      \<and> list_all (\<lambda>p. ridx ! p < length (y_row_sums self) \<and> ridx ! p < length Y
                       \<and> weight_in_bounds rw (ridx ! p)
                       \<and> list_all (\<lambda>q. cidx ! q < length (Y ! (ridx ! p))) [snd start'..<snd end'])
           [fst start'..<fst end']
      \<and> list_all (\<lambda>q. cidx ! q < length (y_col_sums self) \<and> weight_in_bounds cw (cidx ! q))
           [snd start'..<snd end']
      \<and> 0 < length (BipartiteCriterion.sum_total self))"

text \<open>
  The matrix of the specification's example, and an object whose arrays hold the values
  \<^verbatim>\<open>np.empty\<close> happened to leave in them.
\<close>

definition Y_3x3 :: matrix where
  "Y_3x3 = [[1, 2, 3], [4, 5, 6], [7, 8, 9]]"

definition gso_example :: RegressionCriterionGSO where
  "gso_example =
     \<lparr>criterion_rows = column_criterion [0, 0, 0] 3,
      criterion_cols = column_criterion [0, 0, 0] 3,
      n_rows = 3, n_cols = 3, n_outputs_rows = 1, n_outputs_cols = 1, n_outputs = 2,
      X_rows = [], X_cols = [], y = [], row_weights = None, col_weights = None,
      weighted_n_rows = 0, weighted_n_cols = 0, weighted_n_samples = 0,
      row_indices = [], col_indices = [], start = (0, 0), endp = (0, 0),
      weighted_n_node_samples = 0, weighted_n_node_rows = 0, weighted_n_node_cols = 0,
      sq_sum_total = 0, sum_total = [-1],
      n_node_rows = 0, n_node_cols = 0,
      y_row_sums = [-1, -2, -3], y_col_sums = [-4, -5, -6]\<rparr>"

subsection \<open>Notions for the loop invariants of init\<close>

text \<open>
  \<open>wi\<close> and \<open>wj\<close> keep their starting value \<open>1\<close> as long as the weights are absent;
  \<open>row_term\<close> is one summand of a row sum; \<open>row_prepared\<close> is the frame of the outer loop
  when the inner loop starts; \<open>init_entry\<close> is the frame in which the loops start.
\<close>

definition col_ok :: "init_frame \<Rightarrow> bool" where
  "col_ok f = (col_weights f = None \<longrightarrow> wj f = 1)"

definition row_ok :: "init_frame \<Rightarrow> bool" where
  "row_ok f = (row_weights f = None \<longrightarrow> wi f = 1)"

definition row_term :: "init_frame \<Rightarrow> nat \<Rightarrow> nat \<Rightarrow> real" where
  "row_term f i q = weight_of (col_weights f) (col_indices f ! q)
                      * (BipartiteCriterion.y f ! i ! (col_indices f ! q))"

definition row_prepared :: "nat \<Rightarrow> init_frame \<Rightarrow> init_frame" where
  "row_prepared p f =
     (let i = row_indices f ! p;
          f = f\<lparr>y_row_sums := (y_row_sums f)[i := 0]\<rparr>
      in case row_weights f of
           None \<Rightarrow> f
         | Some rw \<Rightarrow>
             let f = f\<lparr>wi := rw ! i\<rparr> in
             f\<lparr>weighted_n_node_rows := weighted_n_node_rows f + wi f\<rparr>)"

definition init_entry :: "RegressionCriterionGSO \<Rightarrow> init_frame" where
  "init_entry self = RegressionCriterionGSO.extend self (init_frame.fields 1 1 0 0 True)"

subsection \<open>GMO\<close>

text \<open>
  The axis criteria of \<^verbatim>\<open>GMO\<close> are \<^verbatim>\<open>AxisCriterion\<close> objects. The module that declares
  \<^verbatim>\<open>AxisCriterion\<close> and its subclass \<^verbatim>\<open>AxisClassificationCriterion\<close>
  (\<^verbatim>\<open>_axis_criterion\<close>) is not in the sources; \<^verbatim>\<open>GMO\<close> uses of them the criterion interface,
  the test \<^verbatim>\<open>isinstance(c, AxisClassificationCriterion)\<close> and the attribute
  \<^verbatim>\<open>max_n_classes\<close> of the subclass. An axis criterion is a criterion object that knows
  which of the two classes it belongs to.
\<close>

datatype axis_criterion_kind = AxisCriterion | AxisClassificationCriterion int

record axis_criterion_object = criterion_object +
  kind :: axis_criterion_kind

record GMO = "axis_criterion_object BipartiteCriterion" +
  max_n_classes :: int

text \<open>
  \<^verbatim>\<open>GMO.__cinit__\<close> and \<^verbatim>\<open>GMO.__init__\<close>. \<^verbatim>\<open>__cinit__\<close> runs first, when \<^verbatim>\<open>n_outputs\<close> is
  still \<open>0\<close>, so its \<^verbatim>\<open>np.zeros(self.n_outputs)\<close> is the empty array.
\<close>

definition GMO_new :: "axis_criterion_object \<Rightarrow> axis_criterion_object \<Rightarrow> error + GMO" where
  "GMO_new criterion_rows' criterion_cols' =
     (let self =
            \<lparr>criterion_rows = criterion_rows', criterion_cols = criterion_cols',
             n_rows = n_samples (state criterion_rows'),
             n_cols = n_samples (state criterion_cols'),
             n_outputs_rows = Criterion.n_outputs (state criterion_rows'),
             n_outputs_cols = Criterion.n_outputs (state criterion_cols'),
             n_outputs = 0,
             X_rows = [], X_cols = [], y = [], row_weights = None, col_weights = None,
             weighted_n_rows = 0, weighted_n_cols = 0, weighted_n_samples = 0,
             row_indices = [], col_indices = [], start = (0, 0), endp = (0, 0),
             weighted_n_node_samples = 0, weighted_n_node_rows = 0, weighted_n_node_cols = 0,
             sq_sum_total = 0, sum_total = [],
             max_n_classes = 0\<rparr>
      in case kind criterion_rows' of
           AxisClassificationCriterion _ \<Rightarrow>
             (case kind criterion_cols' of
                AxisClassificationCriterion m \<Rightarrow>
                  Inr (self\<lparr>max_n_classes := m,
                            n_outputs := n_outputs_rows self + n_outputs_cols self\<rparr>)
              | AxisCriterion \<Rightarrow> Inl TypeError)
         | AxisCriterion \<Rightarrow>
             Inr (self\<lparr>max_n_classes := 1,
                       n_outputs := n_outputs_rows self + n_outputs_cols self\<rparr>))"

text \<open>
  \<^verbatim>\<open>GMO.children_impurity\<close> hands its two pointers to the axis criterion; \<open>out\<close> is what the
  two cells hold before the call.
\<close>

definition GMO_children_impurity ::
  "'a GMO_scheme \<Rightarrow> int \<Rightarrow> real \<times> real \<Rightarrow> error option \<times> real \<times> real" where
  "GMO_children_impurity self axis out =
     (case BipartiteCriterion_get_criterion self axis of
        Inl e \<Rightarrow> (Some e, out)
      | Inr c \<Rightarrow> (None, call_children_impurity c))"

definition GMO_impurity_improvement ::
  "'a GMO_scheme \<Rightarrow> real \<Rightarrow> real \<Rightarrow> real \<Rightarrow> int \<Rightarrow> error option \<times> real" where
  "GMO_impurity_improvement self impurity_parent impurity_left impurity_right axis =
     unraisable
       (case BipartiteCriterion_get_criterion self axis of
          Inl e \<Rightarrow> Inl e
        | Inr c \<Rightarrow>
            Inr (call_impurity_improvement c impurity_parent impurity_left impurity_right))"

text \<open>Axis criteria for the concrete instances: the variance criterion, of either class.\<close>

definition axis_object :: "axis_criterion_kind \<Rightarrow> axis_criterion_object" where
  "axis_object k = \<lparr>cls = variance_criterion, state = variance_new 1 3, kind = k\<rparr>"

text \<open>
  The \<open>3 \<times> 3\<close> example initialised, with \<open>weighted_n_rows = 3\<close> and \<open>weighted_n_cols = 6\<close>.
\<close>

definition gso_3x3 :: RegressionCriterionGSO where
  "gso_3x3 =
     snd (RegressionCriterionGSO_init [] [] Y_3x3 None None 3 6 [0, 1, 2] [0, 1, 2] (0, 0) (3, 3)
            gso_example)"

section \<open>Properties of SSCompositeCriterion\<close>

lemma column_criterion_impurity_123:
  "call_node_impurity (column_criterion [1, 2, 3] 3) = 2 / 3"
  by code_simp

lemma column_criterion_impurity_003:
  "call_node_impurity (column_criterion [0, 0, 3] 3) = 2"
  by code_simp

lemma SSCompositeCriterion_new_supervision:
  assumes "SSCompositeCriterion_new m sv n_out n_feat n_samp c s u = Inr self"
  shows "0 \<le> supervision self \<and> supervision self \<le> 1"
  using assms
  by (auto simp: SSCompositeCriterion_new_def split: if_splits sum.splits criterion_arg.splits)

text \<open>
  C1. For a supervision weight in \<open>[0, 1]\<close>, \<^verbatim>\<open>SSCompositeCriterion.node_impurity\<close> is
  \<open>sup\<close> times the supervised sub-criterion's node impurity plus \<open>1 - sup\<close> times the
  unsupervised one's; at \<open>sup = 0\<close> it is the unsupervised impurity and at \<open>sup = 1\<close> the
  supervised impurity. The object is any composite, so also any initialised one.
\<close>

theorem SSCompositeCriterion_node_impurity_blend:
  assumes "0 \<le> supervision self" and "supervision self \<le> 1"
  shows "SSCompositeCriterion_node_impurity self =
           supervision self * call_node_impurity (supervised_criterion self)
           + (1 - supervision self) * call_node_impurity (unsupervised_criterion self)
         \<and> (supervision self = 0 \<longrightarrow>
              SSCompositeCriterion_node_impurity self
                = call_node_impurity (unsupervised_criterion self))
         \<and> (supervision self = 1 \<longrightarrow>
              SSCompositeCriterion_node_impurity self
                = call_node_impurity (supervised_criterion self))"
  by (simp add: SSCompositeCriterion_node_impurity_def Let_def)

theorem SSCompositeCriterion_node_impurity_blend_witness:
  "SSCompositeCriterion_node_impurity
     (composite_of (1 / 4) (column_criterion [1, 2, 3] 3) (column_criterion [0, 0, 3] 3)) = 5 / 3
   \<and> SSCompositeCriterion_node_impurity
     (composite_of 0 (column_criterion [1, 2, 3] 3) (column_criterion [0, 0, 3] 3)) = 2
   \<and> SSCompositeCriterion_node_impurity
     (composite_of 1 (column_criterion [1, 2, 3] 3) (column_criterion [0, 0, 3] 3)) = 2 / 3"
  using SSCompositeCriterion_node_impurity_blend
          [of "composite_of (1 / 4) (column_criterion [1, 2, 3] 3) (column_criterion [0, 0, 3] 3)"]
        SSCompositeCriterion_node_impurity_blend
          [of "composite_of 0 (column_criterion [1, 2, 3] 3) (column_criterion [0, 0, 3] 3)"]
        SSCompositeCriterion_node_impurity_blend
          [of "composite_of 1 (column_criterion [1, 2, 3] 3) (column_criterion [0, 0, 3] 3)"]
  by (simp add: composite_of_def column_criterion_impurity_123 column_criterion_impurity_003)

subsection \<open>Forwarding of reset, reverse_reset and update\<close>

lemma SSCompositeCriterion_reset_code:
  "fst (SSCompositeCriterion_reset self) =
     (if fst (call_reset (supervised_criterion self)) = -1
         \<or> fst (call_reset (unsupervised_criterion self)) = -1 then -1 else 0)"
  by (simp add: SSCompositeCriterion_reset_def Let_def split: prod.splits)

lemma SSCompositeCriterion_reverse_reset_code:
  "fst (SSCompositeCriterion_reverse_reset self) =
     (if fst (call_reverse_reset (supervised_criterion self)) = -1
         \<or> fst (call_reverse_reset (unsupervised_criterion self)) = -1 then -1 else 0)"
  by (simp add: SSCompositeCriterion_reverse_reset_def Let_def split: prod.splits)

lemma SSCompositeCriterion_update_code:
  "fst (SSCompositeCriterion_update new_pos self) =
     (if fst (call_update new_pos (supervised_criterion self)) = -1
         \<or> fst (call_update new_pos (unsupervised_criterion self)) = -1 then -1 else 0)"
  by (simp add: SSCompositeCriterion_update_def Let_def split: prod.splits)

lemma SSCompositeCriterion_reset_forwards:
  "supervised_criterion (snd (SSCompositeCriterion_reset self))
     = snd (call_reset (supervised_criterion self))
   \<and> unsupervised_criterion (snd (SSCompositeCriterion_reset self))
     = (if fst (call_reset (supervised_criterion self)) = -1 then unsupervised_criterion self
        else snd (call_reset (unsupervised_criterion self)))"
  by (simp add: SSCompositeCriterion_reset_def Let_def split: prod.splits)

lemma SSCompositeCriterion_reverse_reset_forwards:
  "supervised_criterion (snd (SSCompositeCriterion_reverse_reset self))
     = snd (call_reverse_reset (supervised_criterion self))
   \<and> unsupervised_criterion (snd (SSCompositeCriterion_reverse_reset self))
     = (if fst (call_reverse_reset (supervised_criterion self)) = -1
        then unsupervised_criterion self
        else snd (call_reverse_reset (unsupervised_criterion self)))"
  by (simp add: SSCompositeCriterion_reverse_reset_def Let_def split: prod.splits)

lemma SSCompositeCriterion_update_forwards:
  "supervised_criterion (snd (SSCompositeCriterion_update new_pos self))
     = snd (call_update new_pos (supervised_criterion self))
   \<and> unsupervised_criterion (snd (SSCompositeCriterion_update new_pos self))
     = (if fst (call_update new_pos (supervised_criterion self)) = -1
        then unsupervised_criterion self
        else snd (call_update new_pos (unsupervised_criterion self)))"
  by (simp add: SSCompositeCriterion_update_def Let_def split: prod.splits)

lemma SSCompositeCriterion_update_pos:
  "pos (snd (SSCompositeCriterion_update new_pos self))
     = (if fst (SSCompositeCriterion_update new_pos self) = 0 then new_pos else pos self)"
  by (simp add: SSCompositeCriterion_update_def Let_def split: prod.splits)

text \<open>
  C7. \<^verbatim>\<open>reset\<close>, \<^verbatim>\<open>reverse_reset\<close> and \<^verbatim>\<open>update(new_pos)\<close> of the composite return the
  failure code \<open>-1\<close> when the same call on the supervised or on the unsupervised
  sub-criterion returns \<open>-1\<close>, and \<open>0\<close> when neither does. The supervised sub-criterion
  always receives the call; the unsupervised one receives it whenever the supervised call
  did not fail, and then each sub-criterion is left as its own call leaves it.
\<close>

theorem SSCompositeCriterion_forwards_to_both:
  "fst (SSCompositeCriterion_reset self) =
     (if fst (call_reset (supervised_criterion self)) = -1
         \<or> fst (call_reset (unsupervised_criterion self)) = -1 then -1 else 0)
   \<and> fst (SSCompositeCriterion_reverse_reset self) =
     (if fst (call_reverse_reset (supervised_criterion self)) = -1
         \<or> fst (call_reverse_reset (unsupervised_criterion self)) = -1 then -1 else 0)
   \<and> fst (SSCompositeCriterion_update new_pos self) =
     (if fst (call_update new_pos (supervised_criterion self)) = -1
         \<or> fst (call_update new_pos (unsupervised_criterion self)) = -1 then -1 else 0)
   \<and> supervised_criterion (snd (SSCompositeCriterion_reset self))
       = snd (call_reset (supervised_criterion self))
   \<and> supervised_criterion (snd (SSCompositeCriterion_reverse_reset self))
       = snd (call_reverse_reset (supervised_criterion self))
   \<and> supervised_criterion (snd (SSCompositeCriterion_update new_pos self))
       = snd (call_update new_pos (supervised_criterion self))
   \<and> unsupervised_criterion (snd (SSCompositeCriterion_reset self))
       = (if fst (call_reset (supervised_criterion self)) = -1 then unsupervised_criterion self
          else snd (call_reset (unsupervised_criterion self)))
   \<and> unsupervised_criterion (snd (SSCompositeCriterion_reverse_reset self))
       = (if fst (call_reverse_reset (supervised_criterion self)) = -1
          then unsupervised_criterion self
          else snd (call_reverse_reset (unsupervised_criterion self)))
   \<and> unsupervised_criterion (snd (SSCompositeCriterion_update new_pos self))
       = (if fst (call_update new_pos (supervised_criterion self)) = -1
          then unsupervised_criterion self
          else snd (call_update new_pos (unsupervised_criterion self)))"
  using SSCompositeCriterion_reset_code [of self]
        SSCompositeCriterion_reverse_reset_code [of self]
        SSCompositeCriterion_update_code [of new_pos self]
        SSCompositeCriterion_reset_forwards [of self]
        SSCompositeCriterion_reverse_reset_forwards [of self]
        SSCompositeCriterion_update_forwards [of new_pos self]
  by blast

text \<open>
  C9. \<^verbatim>\<open>update(new_pos)\<close> assigns \<^verbatim>\<open>self.pos = new_pos\<close> exactly when both sub-criteria's
  updates succeed, and then returns \<open>0\<close>; on every failure path it returns \<open>-1\<close> and leaves
  \<^verbatim>\<open>self.pos\<close> as it was, while the supervised sub-criterion keeps whatever its own update
  did to it.
\<close>

theorem SSCompositeCriterion_update_pos_atomic:
  "pos (snd (SSCompositeCriterion_update new_pos self))
     = (if fst (call_update new_pos (supervised_criterion self)) = -1
           \<or> fst (call_update new_pos (unsupervised_criterion self)) = -1
        then pos self else new_pos)
   \<and> fst (SSCompositeCriterion_update new_pos self)
     = (if fst (call_update new_pos (supervised_criterion self)) = -1
           \<or> fst (call_update new_pos (unsupervised_criterion self)) = -1
        then -1 else 0)
   \<and> supervised_criterion (snd (SSCompositeCriterion_update new_pos self))
     = snd (call_update new_pos (supervised_criterion self))"
  using SSCompositeCriterion_update_code [of new_pos self]
        SSCompositeCriterion_update_pos [of new_pos self]
        SSCompositeCriterion_update_forwards [of new_pos self]
  by simp

lemma update_example_supervised:
  "fst (call_update 3 (column_criterion [1, 2, 3] 3)) = 0
   \<and> pos (state (column_criterion [1, 2, 3] 3)) = 0
   \<and> pos (state (snd (call_update 3 (column_criterion [1, 2, 3] 3)))) = 3"
  by code_simp

lemma update_example_unsupervised:
  "fst (call_update 3 (column_criterion [0, 0, 3] 2)) = -1
   \<and> fst (call_update 3 (column_criterion [0, 0, 3] 3)) = 0"
  by code_simp

lemma composite_of_simps:
  "supervision (composite_of sv s u) = sv"
  "supervised_criterion (composite_of sv s u) = s"
  "unsupervised_criterion (composite_of sv s u) = u"
  "pos (composite_of sv s u) = 0"
  by (simp_all add: composite_of_def)

theorem SSCompositeCriterion_update_pos_atomic_witness:
  "fst (SSCompositeCriterion_update 3
         (composite_of (1 / 4) (column_criterion [1, 2, 3] 3) (column_criterion [0, 0, 3] 2))) = -1
   \<and> pos (snd (SSCompositeCriterion_update 3
         (composite_of (1 / 4) (column_criterion [1, 2, 3] 3) (column_criterion [0, 0, 3] 2)))) = 0
   \<and> pos (state (supervised_criterion (snd (SSCompositeCriterion_update 3
         (composite_of (1 / 4) (column_criterion [1, 2, 3] 3) (column_criterion [0, 0, 3] 2)))))) = 3
   \<and> pos (snd (SSCompositeCriterion_update 3
         (composite_of (1 / 4) (column_criterion [1, 2, 3] 3) (column_criterion [0, 0, 3] 3)))) = 3"
  using SSCompositeCriterion_update_pos_atomic
          [of 3 "composite_of (1 / 4) (column_criterion [1, 2, 3] 3) (column_criterion [0, 0, 3] 2)"]
        SSCompositeCriterion_update_pos_atomic
          [of 3 "composite_of (1 / 4) (column_criterion [1, 2, 3] 3) (column_criterion [0, 0, 3] 3)"]
        update_example_supervised update_example_unsupervised
  by (simp add: composite_of_simps)

section \<open>Properties of SingleFeatureSSCompositeCriterion\<close>

text \<open>
  C5. \<^verbatim>\<open>SingleFeatureSSCompositeCriterion.impurity_improvement\<close> ignores its parent
  argument: it is \<^verbatim>\<open>SSCompositeCriterion.impurity_improvement\<close> at the cached
  \<^verbatim>\<open>current_node_impurity\<close>, so it is the same for every parent argument. After a
  successful \<^verbatim>\<open>set_feature(k)\<close> the unsupervised sub-criterion has been initialised on
  column \<open>k\<close> of \<^verbatim>\<open>full_X\<close> over the node range of the object, and the cached value is
  the node impurity of the object in that state.
\<close>

theorem SingleFeature_impurity_improvement_cached_parent:
  "SingleFeatureSSCompositeCriterion_impurity_improvement self p l r
     = SSCompositeCriterion_impurity_improvement self (current_node_impurity self) l r
   \<and> SingleFeatureSSCompositeCriterion_impurity_improvement self p l r
     = SingleFeatureSSCompositeCriterion_impurity_improvement self p' l r
   \<and> (fst (SingleFeatureSSCompositeCriterion_set_feature k self) = 0 \<longrightarrow>
        (let self' = snd (SingleFeatureSSCompositeCriterion_set_feature k self) in
           current_feature self' = k
         \<and> X self' = map (py_slice k (k + 1)) (full_X self)
         \<and> unsupervised_criterion self'
             = snd (call_init (unsupervised_criterion self) (map (py_slice k (k + 1)) (full_X self))
                      (sample_weight self) (Criterion.weighted_n_samples self) (sample_indices self)
                      (Criterion.start self) (Criterion.endp self))
         \<and> current_node_impurity self' = SSCompositeCriterion_node_impurity self'
         \<and> SingleFeatureSSCompositeCriterion_impurity_improvement self' p l r
             = SSCompositeCriterion_impurity_improvement self'
                 (SSCompositeCriterion_node_impurity self') l r))"
  by (simp add: SingleFeatureSSCompositeCriterion_impurity_improvement_def
        SingleFeatureSSCompositeCriterion_set_feature_def Let_def
        SSCompositeCriterion_node_impurity_def SSCompositeCriterion_impurity_improvement_def
      split: prod.splits)

lemma two_columns_set_feature_0:
  "fst (SingleFeatureSSCompositeCriterion_set_feature 0 two_columns) = 0
   \<and> SSCompositeCriterion_node_impurity
        (snd (SingleFeatureSSCompositeCriterion_set_feature 0 two_columns)) = 2 / 3"
  by code_simp

lemma two_columns_set_feature_1:
  "fst (SingleFeatureSSCompositeCriterion_set_feature 1
          (snd (SingleFeatureSSCompositeCriterion_set_feature 0 two_columns))) = 0
   \<and> X (snd (SingleFeatureSSCompositeCriterion_set_feature 1
          (snd (SingleFeatureSSCompositeCriterion_set_feature 0 two_columns)))) = [[0], [0], [3]]
   \<and> SSCompositeCriterion_node_impurity
        (snd (SingleFeatureSSCompositeCriterion_set_feature 1
           (snd (SingleFeatureSSCompositeCriterion_set_feature 0 two_columns)))) = 5 / 3
   \<and> SSCompositeCriterion_impurity_improvement
        (snd (SingleFeatureSSCompositeCriterion_set_feature 1
           (snd (SingleFeatureSSCompositeCriterion_set_feature 0 two_columns)))) (5 / 3) 1 1 = 2 / 3"
  by code_simp

theorem SingleFeature_impurity_improvement_cached_parent_witness:
  "current_node_impurity (snd (SingleFeatureSSCompositeCriterion_set_feature 0 two_columns)) = 2 / 3
   \<and> current_node_impurity
        (snd (SingleFeatureSSCompositeCriterion_set_feature 1
           (snd (SingleFeatureSSCompositeCriterion_set_feature 0 two_columns)))) = 5 / 3
   \<and> SingleFeatureSSCompositeCriterion_impurity_improvement
        (snd (SingleFeatureSSCompositeCriterion_set_feature 1
           (snd (SingleFeatureSSCompositeCriterion_set_feature 0 two_columns)))) 100 1 1 = 2 / 3
   \<and> SingleFeatureSSCompositeCriterion_impurity_improvement
        (snd (SingleFeatureSSCompositeCriterion_set_feature 1
           (snd (SingleFeatureSSCompositeCriterion_set_feature 0 two_columns)))) 0 1 1 = 2 / 3"
proof -
  let ?s0 = "snd (SingleFeatureSSCompositeCriterion_set_feature 0 two_columns)"
  let ?s1 = "snd (SingleFeatureSSCompositeCriterion_set_feature 1 ?s0)"
  note t0 = SingleFeature_impurity_improvement_cached_parent [of two_columns 100 1 1 0 0]
  note t1 = SingleFeature_impurity_improvement_cached_parent [of ?s0 100 1 1 0 1]
  note t2 = SingleFeature_impurity_improvement_cached_parent [of ?s1 100 1 1 0 1]
  have ok0: "fst (SingleFeatureSSCompositeCriterion_set_feature 0 two_columns) = 0"
    and n0: "SSCompositeCriterion_node_impurity ?s0 = 2 / 3"
    using two_columns_set_feature_0 by blast+
  have ok1: "fst (SingleFeatureSSCompositeCriterion_set_feature 1 ?s0) = 0"
    and n1: "SSCompositeCriterion_node_impurity ?s1 = 5 / 3"
    and i1: "SSCompositeCriterion_impurity_improvement ?s1 (5 / 3) 1 1 = 2 / 3"
    using two_columns_set_feature_1 by blast+
  have c0: "current_node_impurity ?s0 = SSCompositeCriterion_node_impurity ?s0"
    using t0 ok0 unfolding Let_def by blast
  have c1: "current_node_impurity ?s1 = SSCompositeCriterion_node_impurity ?s1"
    using t1 ok1 unfolding Let_def by blast
  have p100: "SingleFeatureSSCompositeCriterion_impurity_improvement ?s1 100 1 1
      = SSCompositeCriterion_impurity_improvement ?s1 (current_node_impurity ?s1) 1 1"
    and p0: "SingleFeatureSSCompositeCriterion_impurity_improvement ?s1 100 1 1
      = SingleFeatureSSCompositeCriterion_impurity_improvement ?s1 0 1 1"
    using t2 by blast+
  have r0: "current_node_impurity ?s0 = 2 / 3"
    using c0 n0 by (rule trans)
  have r1: "current_node_impurity ?s1 = 5 / 3"
    using c1 n1 by (rule trans)
  have r2: "SingleFeatureSSCompositeCriterion_impurity_improvement ?s1 100 1 1 = 2 / 3"
    using p100 i1 unfolding r1 by (rule trans)
  have r3: "SingleFeatureSSCompositeCriterion_impurity_improvement ?s1 0 1 1 = 2 / 3"
    using p0 [symmetric] r2 by (rule trans)
  show ?thesis
    using r0 r1 r2 r3 by blast
qed


lemma SingleFeature_new_result:
  "snd (SingleFeatureSSCompositeCriterion_new sv c s u n_out n_feat n_samp)
     = snd (SingleFeatureSSCompositeCriterion_new sv c s u n_out 1 n_samp)"
  by (simp add: SingleFeatureSSCompositeCriterion_new_def)

lemma SingleFeature_new_single_output:
  assumes "snd (SingleFeatureSSCompositeCriterion_new sv c s u n_out n_feat n_samp) = Inr self"
  shows "Criterion.n_outputs (state (unsupervised_criterion self)) = 1"
  using assms
  by (auto simp: SingleFeatureSSCompositeCriterion_new_def split: sum.splits if_splits)

lemma SSCompositeCriterion_new_class:
  assumes "SSCompositeCriterion_new m sv n_out n_feat n_samp c s u = Inr self"
      and "py_or u c = PyClass K"
  shows "unsupervised_criterion self = \<lparr>cls = K, state = Criterion_new K n_feat n_samp\<rparr>"
  using assms
  by (auto simp: SSCompositeCriterion_new_def instantiate_def
           split: sum.splits if_splits criterion_arg.splits)

text \<open>
  C10. Constructing a \<^verbatim>\<open>SingleFeatureSSCompositeCriterion\<close> with \<open>n_features \<noteq> 1\<close> emits
  one warning and otherwise behaves as with \<open>n_features = 1\<close>: the object or the exception
  is the same. Whenever construction succeeds the unsupervised sub-criterion has one
  output, and when it was given as a class it is that class instantiated with
  \<open>n_outputs = 1\<close>.
\<close>

theorem SingleFeature_new_coerces_n_features:
  "fst (SingleFeatureSSCompositeCriterion_new sv c s u n_out n_feat n_samp)
     = (if n_feat \<noteq> 1 then [NFeaturesWillBeChanged n_feat] else [])
   \<and> snd (SingleFeatureSSCompositeCriterion_new sv c s u n_out n_feat n_samp)
     = snd (SingleFeatureSSCompositeCriterion_new sv c s u n_out 1 n_samp)
   \<and> (\<forall>self. snd (SingleFeatureSSCompositeCriterion_new sv c s u n_out n_feat n_samp) = Inr self
         \<longrightarrow> Criterion.n_outputs (state (unsupervised_criterion self)) = 1
           \<and> (\<forall>K. py_or u c = PyClass K
                 \<longrightarrow> unsupervised_criterion self
                       = \<lparr>cls = K, state = Criterion_new K 1 n_samp\<rparr>))"
proof (intro conjI allI impI)
  show "fst (SingleFeatureSSCompositeCriterion_new sv c s u n_out n_feat n_samp)
          = (if n_feat \<noteq> 1 then [NFeaturesWillBeChanged n_feat] else [])"
    by (simp add: SingleFeatureSSCompositeCriterion_new_def)
  show "snd (SingleFeatureSSCompositeCriterion_new sv c s u n_out n_feat n_samp)
          = snd (SingleFeatureSSCompositeCriterion_new sv c s u n_out 1 n_samp)"
    by (rule SingleFeature_new_result)
next
  fix self
  assume ok: "snd (SingleFeatureSSCompositeCriterion_new sv c s u n_out n_feat n_samp) = Inr self"
  then show "Criterion.n_outputs (state (unsupervised_criterion self)) = 1"
    by (rule SingleFeature_new_single_output)
  fix K
  assume cl: "py_or u c = PyClass K"
  from ok have "SSCompositeCriterion_new (SingleFeatureSSCompositeCriterion.fields [] 0 0)
                  sv n_out 1 n_samp c s u = Inr self"
    by (auto simp: SingleFeatureSSCompositeCriterion_new_def split: sum.splits if_splits)
  then show "unsupervised_criterion self = \<lparr>cls = K, state = Criterion_new K 1 n_samp\<rparr>"
    using cl by (rule SSCompositeCriterion_new_class)
qed

lemma SingleFeature_new_example_ok: "\<exists>self. snd (SingleFeatureSSCompositeCriterion_new (1 / 2) (PyClass variance_criterion) PyNone PyNone 1 5 3) = Inr self"
  by (simp add: SingleFeatureSSCompositeCriterion_new_def SSCompositeCriterion_new_def
        instantiate_def py_or_def is_None_def variance_criterion_def variance_new_def)

theorem SingleFeature_new_coerces_n_features_witness:
  "fst (SingleFeatureSSCompositeCriterion_new (1 / 2) (PyClass variance_criterion) PyNone PyNone 1 5 3)
     = [NFeaturesWillBeChanged 5]
   \<and> (\<exists>self. snd (SingleFeatureSSCompositeCriterion_new (1 / 2) (PyClass variance_criterion)
                    PyNone PyNone 1 5 3) = Inr self
         \<and> unsupervised_criterion self
             = \<lparr>cls = variance_criterion, state = variance_new 1 3\<rparr>
         \<and> n_features self = 1)"
proof -
  obtain self where ok:
    "snd (SingleFeatureSSCompositeCriterion_new (1 / 2) (PyClass variance_criterion)
            PyNone PyNone 1 5 3) = Inr self"
    using SingleFeature_new_example_ok by blast
  have cl: "py_or PyNone (PyClass variance_criterion) = PyClass variance_criterion"
    by (simp add: py_or_def)
  note th = SingleFeature_new_coerces_n_features
              [of "1 / 2" "PyClass variance_criterion" PyNone PyNone 1 5 3]
  from th ok cl have u: "unsupervised_criterion self
      = \<lparr>cls = variance_criterion, state = Criterion_new variance_criterion 1 3\<rparr>"
    by blast
  from th ok have one: "Criterion.n_outputs (state (unsupervised_criterion self)) = 1" by blast
  from ok have nf: "n_features self = Criterion.n_outputs (state (unsupervised_criterion self))"
    by (auto simp: SingleFeatureSSCompositeCriterion_new_def SSCompositeCriterion_new_def
          instantiate_def py_or_def is_None_def split: if_splits)
  from th have w: "fst (SingleFeatureSSCompositeCriterion_new (1 / 2) (PyClass variance_criterion)
      PyNone PyNone 1 5 3) = [NFeaturesWillBeChanged 5]" by simp
  from u have u': "unsupervised_criterion self
      = \<lparr>cls = variance_criterion, state = variance_new 1 3\<rparr>"
    by (simp add: variance_criterion_def)
  from w ok u' nf one show ?thesis by simp
qed


section \<open>Properties of RegressionCriterionGSO.init\<close>

subsection \<open>One pass of the inner loop\<close>

lemma init_col_step_frame:
  "col_indices (init_col_step i q f) = col_indices f"
  "col_weights (init_col_step i q f) = col_weights f"
  "row_indices (init_col_step i q f) = row_indices f"
  "row_weights (init_col_step i q f) = row_weights f"
  "BipartiteCriterion.y (init_col_step i q f) = BipartiteCriterion.y f"
  "is_first_row (init_col_step i q f) = is_first_row f"
  "wi (init_col_step i q f) = wi f"
  "length (y_row_sums (init_col_step i q f)) = length (y_row_sums f)"
  "length (y_col_sums (init_col_step i q f)) = length (y_col_sums f)"
  "BipartiteCriterion.sum_total (init_col_step i q f) = BipartiteCriterion.sum_total f"
  by (simp_all add: init_col_step_def Let_def split: option.splits)

lemma init_col_step_wj:
  "wj (init_col_step i q f) = (case col_weights f of None \<Rightarrow> wj f | Some cw \<Rightarrow> cw ! (col_indices f ! q))"
  by (simp add: init_col_step_def Let_def split: option.splits)

lemma init_col_step_col_ok: "col_ok f \<Longrightarrow> col_ok (init_col_step i q f)"
  by (simp add: col_ok_def init_col_step_frame init_col_step_wj)

lemma list_update_read_back:
  "xs[j := g (xs[j := a] ! j)] = xs[j := g a]"
  by (cases "j < length xs") (simp_all add: list_update_beyond)

lemma init_col_step_sums:
  assumes "col_ok f"
  shows "local_sum_total (init_col_step i q f)
           = local_sum_total f
             + wi f * weight_of (col_weights f) (col_indices f ! q)
               * (BipartiteCriterion.y f ! i ! (col_indices f ! q))"
    and "local_sq_sum_total (init_col_step i q f)
           = local_sq_sum_total f
             + wi f * weight_of (col_weights f) (col_indices f ! q)
               * (BipartiteCriterion.y f ! i ! (col_indices f ! q))
               * (BipartiteCriterion.y f ! i ! (col_indices f ! q))"
    and "y_row_sums (init_col_step i q f)
           = (y_row_sums f)[i := y_row_sums f ! i
                + weight_of (col_weights f) (col_indices f ! q)
                  * (BipartiteCriterion.y f ! i ! (col_indices f ! q))]"
    and "y_col_sums (init_col_step i q f)
           = (y_col_sums f)[col_indices f ! q :=
                (if is_first_row f then 0 else y_col_sums f ! (col_indices f ! q))
                + wi f * (BipartiteCriterion.y f ! i ! (col_indices f ! q))]"
  using assms list_update_read_back [of "y_col_sums f" "col_indices f ! q"
      "\<lambda>v. v + wi f * (BipartiteCriterion.y f ! i ! (col_indices f ! q))" 0]
  by (auto simp: init_col_step_def Let_def col_ok_def weight_of_def split: option.splits)

subsection \<open>The inner loop\<close>

text \<open>
  Induction on the list of column positions, with the frame generalised. The column sums
  need the column indices distinct: a second visit of \<open>j\<close> in the first row would zero
  \<^verbatim>\<open>y_col_sums[j]\<close> again.
\<close>

lemma fold_col_frame:
  "col_indices (fold (init_col_step i) qs f) = col_indices f
   \<and> col_weights (fold (init_col_step i) qs f) = col_weights f
   \<and> row_indices (fold (init_col_step i) qs f) = row_indices f
   \<and> row_weights (fold (init_col_step i) qs f) = row_weights f
   \<and> BipartiteCriterion.y (fold (init_col_step i) qs f) = BipartiteCriterion.y f
   \<and> is_first_row (fold (init_col_step i) qs f) = is_first_row f
   \<and> wi (fold (init_col_step i) qs f) = wi f
   \<and> length (y_row_sums (fold (init_col_step i) qs f)) = length (y_row_sums f)
   \<and> length (y_col_sums (fold (init_col_step i) qs f)) = length (y_col_sums f)
   \<and> BipartiteCriterion.sum_total (fold (init_col_step i) qs f) = BipartiteCriterion.sum_total f
   \<and> (col_ok f \<longrightarrow> col_ok (fold (init_col_step i) qs f))"
  by (induction qs arbitrary: f) (simp_all add: init_col_step_frame init_col_step_col_ok)

lemma row_term_init_col_step: "row_term (init_col_step i q f) i' q' = row_term f i' q'"
  by (simp add: row_term_def init_col_step_frame)

lemma fold_col_sum_total:
  "col_ok f \<Longrightarrow>
   local_sum_total (fold (init_col_step i) qs f)
     = local_sum_total f + wi f * (\<Sum>q\<leftarrow>qs. row_term f i q)"
proof (induction qs arbitrary: f)
  case Nil
  then show ?case by simp
next
  case (Cons q qs)
  let ?f' = "init_col_step i q f"
  have ok': "col_ok ?f'"
    using Cons.prems by (rule init_col_step_col_ok)
  have "local_sum_total (fold (init_col_step i) (q # qs) f)
          = local_sum_total ?f' + wi ?f' * (\<Sum>q\<leftarrow>qs. row_term ?f' i q)"
    using Cons.IH [OF ok'] by simp
  also have "\<dots> = local_sum_total f + wi f * row_term f i q
                    + wi f * (\<Sum>q\<leftarrow>qs. row_term f i q)"
    using init_col_step_sums(1) [OF Cons.prems, of i q]
    by (simp add: row_term_init_col_step init_col_step_frame row_term_def)
  finally show ?case
    by (simp add: algebra_simps)
qed

lemma fold_col_sq_sum_total:
  "col_ok f \<Longrightarrow>
   local_sq_sum_total (fold (init_col_step i) qs f)
     = local_sq_sum_total f
       + wi f * (\<Sum>q\<leftarrow>qs. row_term f i q * (BipartiteCriterion.y f ! i ! (col_indices f ! q)))"
proof (induction qs arbitrary: f)
  case Nil
  then show ?case by simp
next
  case (Cons q qs)
  let ?f' = "init_col_step i q f"
  have ok': "col_ok ?f'"
    using Cons.prems by (rule init_col_step_col_ok)
  have "local_sq_sum_total (fold (init_col_step i) (q # qs) f)
          = local_sq_sum_total ?f'
            + wi ?f' * (\<Sum>q\<leftarrow>qs. row_term ?f' i q
                          * (BipartiteCriterion.y ?f' ! i ! (col_indices ?f' ! q)))"
    using Cons.IH [OF ok'] by simp
  also have "\<dots> = local_sq_sum_total f
                    + wi f * (row_term f i q * (BipartiteCriterion.y f ! i ! (col_indices f ! q)))
                    + wi f * (\<Sum>q\<leftarrow>qs. row_term f i q
                                * (BipartiteCriterion.y f ! i ! (col_indices f ! q)))"
    using init_col_step_sums(2) [OF Cons.prems, of i q]
    by (simp add: row_term_init_col_step init_col_step_frame row_term_def)
  finally show ?case
    by (simp add: algebra_simps)
qed

lemma fold_col_row_sums:
  "col_ok f \<Longrightarrow>
   y_row_sums (fold (init_col_step i) qs f)
     = (y_row_sums f)[i := y_row_sums f ! i + (\<Sum>q\<leftarrow>qs. row_term f i q)]"
proof (induction qs arbitrary: f)
  case Nil
  then show ?case by simp
next
  case (Cons q qs)
  let ?f' = "init_col_step i q f"
  let ?a = "y_row_sums f ! i + row_term f i q"
  let ?S = "\<Sum>q\<leftarrow>qs. row_term f i q"
  have ok': "col_ok ?f'"
    using Cons.prems by (rule init_col_step_col_ok)
  have step: "y_row_sums ?f' = (y_row_sums f)[i := ?a]"
    using init_col_step_sums(3) [OF Cons.prems, of i q] by (simp add: row_term_def)
  have "y_row_sums (fold (init_col_step i) (q # qs) f)
          = (y_row_sums ?f')[i := y_row_sums ?f' ! i + (\<Sum>q\<leftarrow>qs. row_term ?f' i q)]"
    using Cons.IH [OF ok'] by simp
  also have "\<dots> = (y_row_sums f)[i := (y_row_sums f)[i := ?a] ! i + ?S]"
    by (simp add: step row_term_init_col_step)
  also have "\<dots> = (y_row_sums f)[i := ?a + ?S]"
    by (rule list_update_read_back [of "y_row_sums f" i "\<lambda>v. v + ?S" ?a])
  finally show ?case
    by (simp add: algebra_simps)
qed

lemma fold_col_col_sums:
  assumes "col_ok f"
      and "distinct (map (\<lambda>q. col_indices f ! q) qs)"
      and "j < length (y_col_sums f)"
  shows "y_col_sums (fold (init_col_step i) qs f) ! j
           = (if j \<in> (\<lambda>q. col_indices f ! q) ` set qs
              then (if is_first_row f then 0 else y_col_sums f ! j)
                   + wi f * (BipartiteCriterion.y f ! i ! j)
              else y_col_sums f ! j)"
  using assms
proof (induction qs arbitrary: f)
  case Nil
  then show ?case by simp
next
  case (Cons q qs)
  let ?f' = "init_col_step i q f"
  let ?jq = "col_indices f ! q"
  have ok': "col_ok ?f'"
    using Cons.prems(1) by (rule init_col_step_col_ok)
  have d': "distinct (map (\<lambda>q. col_indices ?f' ! q) qs)"
    using Cons.prems(2) by (simp add: init_col_step_frame)
  have l': "j < length (y_col_sums ?f')"
    using Cons.prems(3) by (simp add: init_col_step_frame)
  have fresh: "?jq \<notin> (\<lambda>q. col_indices f ! q) ` set qs"
    using Cons.prems(2) by auto
  have step: "y_col_sums ?f'
      = (y_col_sums f)[?jq := (if is_first_row f then 0 else y_col_sums f ! ?jq)
                               + wi f * (BipartiteCriterion.y f ! i ! ?jq)]"
    using init_col_step_sums(4) [OF Cons.prems(1), of i q] .
  have ih: "y_col_sums (fold (init_col_step i) qs ?f') ! j
      = (if j \<in> (\<lambda>q. col_indices f ! q) ` set qs
         then (if is_first_row f then 0 else y_col_sums ?f' ! j)
              + wi f * (BipartiteCriterion.y f ! i ! j)
         else y_col_sums ?f' ! j)"
    using Cons.IH [OF ok' d' l'] by (simp add: init_col_step_frame)
  show ?case
  proof (cases "j = ?jq")
    case True
    with fresh ih step Cons.prems(3) show ?thesis by simp
  next
    case False
    with ih step show ?thesis by simp
  qed
qed

subsection \<open>One pass of the outer loop\<close>

lemma init_row_step_unfold:
  "init_row_step sc ec p f =
     (fold (init_col_step (row_indices f ! p)) [sc..<ec] (row_prepared p f))\<lparr>is_first_row := False\<rparr>"
  by (cases "is_first_row (fold (init_col_step (row_indices f ! p)) [sc..<ec] (row_prepared p f))")
     (simp_all add: init_row_step_def row_prepared_def Let_def split: option.splits)

lemma row_prepared_frame:
  "col_indices (row_prepared p f) = col_indices f"
  "col_weights (row_prepared p f) = col_weights f"
  "row_indices (row_prepared p f) = row_indices f"
  "row_weights (row_prepared p f) = row_weights f"
  "BipartiteCriterion.y (row_prepared p f) = BipartiteCriterion.y f"
  "is_first_row (row_prepared p f) = is_first_row f"
  "wj (row_prepared p f) = wj f"
  "y_row_sums (row_prepared p f) = (y_row_sums f)[row_indices f ! p := 0]"
  "y_col_sums (row_prepared p f) = y_col_sums f"
  "local_sum_total (row_prepared p f) = local_sum_total f"
  "local_sq_sum_total (row_prepared p f) = local_sq_sum_total f"
  "BipartiteCriterion.sum_total (row_prepared p f) = BipartiteCriterion.sum_total f"
  by (simp_all add: row_prepared_def Let_def split: option.splits)

lemma row_prepared_wi:
  "row_ok f \<Longrightarrow> wi (row_prepared p f) = weight_of (row_weights f) (row_indices f ! p)"
  by (simp add: row_prepared_def row_ok_def weight_of_def Let_def split: option.splits)

lemma row_prepared_ok:
  "row_ok f \<Longrightarrow> row_ok (row_prepared p f)" "col_ok f \<Longrightarrow> col_ok (row_prepared p f)"
  by (simp_all add: row_prepared_def row_ok_def col_ok_def Let_def split: option.splits)

lemma init_row_step_frame:
  "col_indices (init_row_step sc ec p f) = col_indices f"
  "col_weights (init_row_step sc ec p f) = col_weights f"
  "row_indices (init_row_step sc ec p f) = row_indices f"
  "row_weights (init_row_step sc ec p f) = row_weights f"
  "BipartiteCriterion.y (init_row_step sc ec p f) = BipartiteCriterion.y f"
  "is_first_row (init_row_step sc ec p f) = False"
  "length (y_row_sums (init_row_step sc ec p f)) = length (y_row_sums f)"
  "length (y_col_sums (init_row_step sc ec p f)) = length (y_col_sums f)"
  "BipartiteCriterion.sum_total (init_row_step sc ec p f) = BipartiteCriterion.sum_total f"
  by (simp_all add: init_row_step_unfold fold_col_frame row_prepared_frame)

lemma init_row_step_ok:
  assumes "row_ok f" and "col_ok f"
  shows "row_ok (init_row_step sc ec p f)" and "col_ok (init_row_step sc ec p f)"
proof -
  let ?g = "fold (init_col_step (row_indices f ! p)) [sc..<ec] (row_prepared p f)"
  have "row_ok (row_prepared p f)" and c: "col_ok (row_prepared p f)"
    using assms by (simp_all add: row_prepared_ok)
  then have "row_ok ?g"
    by (simp add: row_ok_def fold_col_frame)
  then show "row_ok (init_row_step sc ec p f)"
    by (simp add: init_row_step_unfold row_ok_def)
  have "col_ok ?g"
    using c fold_col_frame [of "row_indices f ! p" "[sc..<ec]" "row_prepared p f"] by blast
  then show "col_ok (init_row_step sc ec p f)"
    by (simp add: init_row_step_unfold col_ok_def)
qed

lemma row_term_row_prepared: "row_term (row_prepared p f) i q = row_term f i q"
  by (simp add: row_term_def row_prepared_frame)

lemma init_row_step_sums:
  assumes "row_ok f" and "col_ok f"
  shows "local_sum_total (init_row_step sc ec p f)
           = local_sum_total f
             + weight_of (row_weights f) (row_indices f ! p)
               * (\<Sum>q\<leftarrow>[sc..<ec]. row_term f (row_indices f ! p) q)"
    and "local_sq_sum_total (init_row_step sc ec p f)
           = local_sq_sum_total f
             + weight_of (row_weights f) (row_indices f ! p)
               * (\<Sum>q\<leftarrow>[sc..<ec]. row_term f (row_indices f ! p) q
                     * (BipartiteCriterion.y f ! (row_indices f ! p) ! (col_indices f ! q)))"
    and "y_row_sums (init_row_step sc ec p f)
           = (y_row_sums f)[row_indices f ! p :=
                \<Sum>q\<leftarrow>[sc..<ec]. row_term f (row_indices f ! p) q]"
proof -
  let ?i = "row_indices f ! p"
  let ?h = "row_prepared p f"
  have c: "col_ok ?h"
    using assms(2) by (simp add: row_prepared_ok)
  show "local_sum_total (init_row_step sc ec p f)
           = local_sum_total f
             + weight_of (row_weights f) ?i * (\<Sum>q\<leftarrow>[sc..<ec]. row_term f ?i q)"
    using fold_col_sum_total [OF c, of ?i "[sc..<ec]"] row_prepared_wi [OF assms(1), of p]
    by (simp add: init_row_step_unfold row_prepared_frame row_term_row_prepared)
  show "local_sq_sum_total (init_row_step sc ec p f)
           = local_sq_sum_total f
             + weight_of (row_weights f) ?i
               * (\<Sum>q\<leftarrow>[sc..<ec]. row_term f ?i q
                     * (BipartiteCriterion.y f ! ?i ! (col_indices f ! q)))"
    using fold_col_sq_sum_total [OF c, of ?i "[sc..<ec]"] row_prepared_wi [OF assms(1), of p]
    by (simp add: init_row_step_unfold row_prepared_frame row_term_row_prepared)
  have "y_row_sums (init_row_step sc ec p f)
          = ((y_row_sums f)[?i := 0])[?i := (y_row_sums f)[?i := 0] ! ?i
               + (\<Sum>q\<leftarrow>[sc..<ec]. row_term f ?i q)]"
    using fold_col_row_sums [OF c, of ?i "[sc..<ec]"]
    by (simp add: init_row_step_unfold row_prepared_frame row_term_row_prepared)
  also have "\<dots> = (y_row_sums f)[?i := (y_row_sums f)[?i := 0] ! ?i
               + (\<Sum>q\<leftarrow>[sc..<ec]. row_term f ?i q)]"
    by simp
  also have "\<dots> = (y_row_sums f)[?i := 0 + (\<Sum>q\<leftarrow>[sc..<ec]. row_term f ?i q)]"
    by (rule list_update_read_back
              [of "y_row_sums f" ?i "\<lambda>v. v + (\<Sum>q\<leftarrow>[sc..<ec]. row_term f ?i q)" 0])
  finally show "y_row_sums (init_row_step sc ec p f)
           = (y_row_sums f)[?i := \<Sum>q\<leftarrow>[sc..<ec]. row_term f ?i q]"
    by simp
qed

lemma init_row_step_col_sums:
  assumes "row_ok f" and "col_ok f"
      and "distinct (map (\<lambda>q. col_indices f ! q) [sc..<ec])"
      and "j < length (y_col_sums f)"
      and "j \<in> (\<lambda>q. col_indices f ! q) ` {sc..<ec}"
  shows "y_col_sums (init_row_step sc ec p f) ! j
           = (if is_first_row f then 0 else y_col_sums f ! j)
             + weight_of (row_weights f) (row_indices f ! p)
               * (BipartiteCriterion.y f ! (row_indices f ! p) ! j)"
proof -
  let ?h = "row_prepared p f"
  have c: "col_ok ?h"
    using assms(2) by (simp add: row_prepared_ok)
  have d: "distinct (map (\<lambda>q. col_indices ?h ! q) [sc..<ec])"
    using assms(3) by (simp add: row_prepared_frame)
  have l: "j < length (y_col_sums ?h)"
    using assms(4) by (simp add: row_prepared_frame)
  show ?thesis
    using fold_col_col_sums [OF c d l, of "row_indices f ! p"] assms(5)
          row_prepared_wi [OF assms(1), of p]
    by (simp add: init_row_step_unfold row_prepared_frame)
qed

subsection \<open>The outer loop\<close>

text \<open>
  Induction on the list of row positions from the right: the last pass overwrites
  \<^verbatim>\<open>y_row_sums[i]\<close> of its own row and adds its row to every column sum.
\<close>

lemma fold_row_frame:
  assumes "row_ok f" and "col_ok f"
  shows "col_indices (fold (init_row_step sc ec) ps f) = col_indices f
   \<and> col_weights (fold (init_row_step sc ec) ps f) = col_weights f
   \<and> row_indices (fold (init_row_step sc ec) ps f) = row_indices f
   \<and> row_weights (fold (init_row_step sc ec) ps f) = row_weights f
   \<and> BipartiteCriterion.y (fold (init_row_step sc ec) ps f) = BipartiteCriterion.y f
   \<and> is_first_row (fold (init_row_step sc ec) ps f) = (ps = [] \<and> is_first_row f)
   \<and> length (y_row_sums (fold (init_row_step sc ec) ps f)) = length (y_row_sums f)
   \<and> length (y_col_sums (fold (init_row_step sc ec) ps f)) = length (y_col_sums f)
   \<and> BipartiteCriterion.sum_total (fold (init_row_step sc ec) ps f)
       = BipartiteCriterion.sum_total f
   \<and> row_ok (fold (init_row_step sc ec) ps f)
   \<and> col_ok (fold (init_row_step sc ec) ps f)"
  using assms
  by (induction ps rule: rev_induct) (simp_all add: init_row_step_frame init_row_step_ok)

lemma row_term_cong:
  "col_weights g = col_weights f \<Longrightarrow> col_indices g = col_indices f
   \<Longrightarrow> BipartiteCriterion.y g = BipartiteCriterion.y f \<Longrightarrow> row_term g = row_term f"
  by (simp add: row_term_def fun_eq_iff)

lemma fold_row_sum_total:
  assumes "row_ok f" and "col_ok f"
  shows "local_sum_total (fold (init_row_step sc ec) ps f)
           = local_sum_total f
             + (\<Sum>p\<leftarrow>ps. weight_of (row_weights f) (row_indices f ! p)
                        * (\<Sum>q\<leftarrow>[sc..<ec]. row_term f (row_indices f ! p) q))"
proof (induction ps rule: rev_induct)
  case Nil
  show ?case by simp
next
  case (snoc p ps)
  let ?g = "fold (init_row_step sc ec) ps f"
  note fr = fold_row_frame [OF assms, of sc ec ps]
  have rt: "row_term ?g = row_term f"
    using fr by (intro row_term_cong) simp_all
  have "local_sum_total (fold (init_row_step sc ec) (ps @ [p]) f)
          = local_sum_total (init_row_step sc ec p ?g)"
    by simp
  also have "\<dots> = local_sum_total ?g
                    + weight_of (row_weights ?g) (row_indices ?g ! p)
                      * (\<Sum>q\<leftarrow>[sc..<ec]. row_term ?g (row_indices ?g ! p) q)"
    using fr by (intro init_row_step_sums(1)) simp_all
  finally show ?case
    using snoc.IH fr by (simp add: rt)
qed

lemma fold_row_sq_sum_total:
  assumes "row_ok f" and "col_ok f"
  shows "local_sq_sum_total (fold (init_row_step sc ec) ps f)
           = local_sq_sum_total f
             + (\<Sum>p\<leftarrow>ps. weight_of (row_weights f) (row_indices f ! p)
                        * (\<Sum>q\<leftarrow>[sc..<ec]. row_term f (row_indices f ! p) q
                             * (BipartiteCriterion.y f ! (row_indices f ! p) ! (col_indices f ! q))))"
proof (induction ps rule: rev_induct)
  case Nil
  show ?case by simp
next
  case (snoc p ps)
  let ?g = "fold (init_row_step sc ec) ps f"
  note fr = fold_row_frame [OF assms, of sc ec ps]
  have rt: "row_term ?g = row_term f"
    using fr by (intro row_term_cong) simp_all
  have "local_sq_sum_total (fold (init_row_step sc ec) (ps @ [p]) f)
          = local_sq_sum_total (init_row_step sc ec p ?g)"
    by simp
  also have "\<dots> = local_sq_sum_total ?g
                    + weight_of (row_weights ?g) (row_indices ?g ! p)
                      * (\<Sum>q\<leftarrow>[sc..<ec]. row_term ?g (row_indices ?g ! p) q
                           * (BipartiteCriterion.y ?g ! (row_indices ?g ! p) ! (col_indices ?g ! q)))"
    using fr by (intro init_row_step_sums(2)) simp_all
  finally show ?case
    using snoc.IH fr by (simp add: rt)
qed

lemma fold_row_row_sums:
  assumes "row_ok f" and "col_ok f"
      and "p \<in> set ps" and "row_indices f ! p < length (y_row_sums f)"
  shows "y_row_sums (fold (init_row_step sc ec) ps f) ! (row_indices f ! p)
           = (\<Sum>q\<leftarrow>[sc..<ec]. row_term f (row_indices f ! p) q)"
  using assms(3)
proof (induction ps rule: rev_induct)
  case Nil
  then show ?case by simp
next
  case (snoc p' ps)
  let ?g = "fold (init_row_step sc ec) ps f"
  note fr = fold_row_frame [OF assms(1,2), of sc ec ps]
  have rt: "row_term ?g = row_term f"
    using fr by (intro row_term_cong) simp_all
  have step: "y_row_sums (fold (init_row_step sc ec) (ps @ [p']) f)
      = (y_row_sums ?g)[row_indices f ! p' := \<Sum>q\<leftarrow>[sc..<ec]. row_term f (row_indices f ! p') q]"
    using init_row_step_sums(3) [of ?g sc ec p'] fr by (simp add: rt)
  have len: "row_indices f ! p < length (y_row_sums ?g)"
    using fr assms(4) by simp
  show ?case
  proof (cases "row_indices f ! p' = row_indices f ! p")
    case True
    with step len show ?thesis by simp
  next
    case False
    with snoc.prems have "p \<in> set ps" by auto
    with snoc.IH step False show ?thesis by simp
  qed
qed

lemma fold_row_col_sums:
  assumes "row_ok f" and "col_ok f" and "is_first_row f" and "ps \<noteq> []"
      and "distinct (map (\<lambda>q. col_indices f ! q) [sc..<ec])"
      and "j < length (y_col_sums f)"
      and "j \<in> (\<lambda>q. col_indices f ! q) ` {sc..<ec}"
  shows "y_col_sums (fold (init_row_step sc ec) ps f) ! j
           = (\<Sum>p\<leftarrow>ps. weight_of (row_weights f) (row_indices f ! p)
                      * (BipartiteCriterion.y f ! (row_indices f ! p) ! j))"
  using assms(4)
proof (induction ps rule: rev_induct)
  case Nil
  then show ?case by simp
next
  case (snoc p ps)
  let ?g = "fold (init_row_step sc ec) ps f"
  note fr = fold_row_frame [OF assms(1,2), of sc ec ps]
  have step: "y_col_sums (fold (init_row_step sc ec) (ps @ [p]) f) ! j
      = (if is_first_row ?g then 0 else y_col_sums ?g ! j)
        + weight_of (row_weights f) (row_indices f ! p)
          * (BipartiteCriterion.y f ! (row_indices f ! p) ! j)"
    using init_row_step_col_sums [of ?g sc ec j p] fr assms(5,6,7) by simp
  show ?case
  proof (cases "ps = []")
    case True
    with step fr assms(3) show ?thesis by simp
  next
    case False
    with snoc.IH step fr show ?thesis by simp
  qed
qed

subsection \<open>The three parts of init\<close>

lemma init_entry_fields:
  "col_indices (init_entry self) = col_indices self"
  "col_weights (init_entry self) = col_weights self"
  "row_indices (init_entry self) = row_indices self"
  "row_weights (init_entry self) = row_weights self"
  "BipartiteCriterion.y (init_entry self) = BipartiteCriterion.y self"
  "is_first_row (init_entry self)"
  "wi (init_entry self) = 1"
  "wj (init_entry self) = 1"
  "local_sum_total (init_entry self) = 0"
  "local_sq_sum_total (init_entry self) = 0"
  "y_row_sums (init_entry self) = y_row_sums self"
  "y_col_sums (init_entry self) = y_col_sums self"
  "BipartiteCriterion.sum_total (init_entry self) = BipartiteCriterion.sum_total self"
  by (simp_all add: init_entry_def RegressionCriterionGSO.extend_def init_frame.fields_def)

lemma init_entry_ok: "row_ok (init_entry self)" "col_ok (init_entry self)"
  by (simp_all add: row_ok_def col_ok_def init_entry_fields)

lemma init_fields_fields:
  "col_indices (init_fields Xr Xc Y rw cw wnr wnc ridx cidx s e self) = cidx"
  "col_weights (init_fields Xr Xc Y rw cw wnr wnc ridx cidx s e self) = cw"
  "row_indices (init_fields Xr Xc Y rw cw wnr wnc ridx cidx s e self) = ridx"
  "row_weights (init_fields Xr Xc Y rw cw wnr wnc ridx cidx s e self) = rw"
  "BipartiteCriterion.y (init_fields Xr Xc Y rw cw wnr wnc ridx cidx s e self) = Y"
  "y_row_sums (init_fields Xr Xc Y rw cw wnr wnc ridx cidx s e self) = y_row_sums self"
  "y_col_sums (init_fields Xr Xc Y rw cw wnr wnc ridx cidx s e self) = y_col_sums self"
  "BipartiteCriterion.sum_total (init_fields Xr Xc Y rw cw wnr wnc ridx cidx s e self)
     = BipartiteCriterion.sum_total self"
  by (simp_all add: init_fields_def Let_def)

lemma init_sums_fields:
  "y_row_sums (init_sums s e self)
     = y_row_sums (fold (init_row_step (snd s) (snd e)) [fst s..<fst e] (init_entry self))"
  "y_col_sums (init_sums s e self)
     = y_col_sums (fold (init_row_step (snd s) (snd e)) [fst s..<fst e] (init_entry self))"
  "BipartiteCriterion.sq_sum_total (init_sums s e self)
     = local_sq_sum_total (fold (init_row_step (snd s) (snd e)) [fst s..<fst e] (init_entry self))"
  "BipartiteCriterion.sum_total (init_sums s e self)
     = (BipartiteCriterion.sum_total
          (fold (init_row_step (snd s) (snd e)) [fst s..<fst e] (init_entry self)))
         [0 := local_sum_total
                 (fold (init_row_step (snd s) (snd e)) [fst s..<fst e] (init_entry self))]"
  by (simp_all add: init_sums_def init_entry_def Let_def RegressionCriterionGSO.truncate_def)

lemma init_children_fields:
  "y_row_sums (snd (init_children self)) = y_row_sums self"
  "y_col_sums (snd (init_children self)) = y_col_sums self"
  "BipartiteCriterion.sq_sum_total (snd (init_children self)) = BipartiteCriterion.sq_sum_total self"
  "BipartiteCriterion.sum_total (snd (init_children self)) = BipartiteCriterion.sum_total self"
  "BipartiteCriterion.weighted_n_node_samples (snd (init_children self))
     = BipartiteCriterion.weighted_n_node_samples self"
  by (simp_all add: init_children_def Let_def split: prod.splits)

subsection \<open>Node weights without weight arrays\<close>

lemma init_col_step_node_weights:
  "weighted_n_node_rows (init_col_step i q f) = weighted_n_node_rows f"
  "col_weights f = None \<Longrightarrow> weighted_n_node_cols (init_col_step i q f) = weighted_n_node_cols f"
  by (simp_all add: init_col_step_def Let_def split: option.splits)

lemma fold_col_node_weights:
  "weighted_n_node_rows (fold (init_col_step i) qs f) = weighted_n_node_rows f
   \<and> (col_weights f = None \<longrightarrow>
        weighted_n_node_cols (fold (init_col_step i) qs f) = weighted_n_node_cols f)"
  by (induction qs arbitrary: f) (simp_all add: init_col_step_node_weights init_col_step_frame)

lemma row_prepared_node_weights:
  "row_weights f = None \<Longrightarrow> weighted_n_node_rows (row_prepared p f) = weighted_n_node_rows f"
  "weighted_n_node_cols (row_prepared p f) = weighted_n_node_cols f"
  by (simp_all add: row_prepared_def Let_def split: option.splits)

lemma init_row_step_node_weights:
  "row_weights f = None \<Longrightarrow>
     weighted_n_node_rows (init_row_step sc ec p f) = weighted_n_node_rows f"
  "col_weights f = None \<Longrightarrow>
     weighted_n_node_cols (init_row_step sc ec p f) = weighted_n_node_cols f"
  using fold_col_node_weights [of "row_indices f ! p" "[sc..<ec]" "row_prepared p f"]
  by (simp_all add: init_row_step_unfold row_prepared_frame row_prepared_node_weights)

lemma fold_row_node_weights:
  "(row_weights f = None \<longrightarrow>
      weighted_n_node_rows (fold (init_row_step sc ec) ps f) = weighted_n_node_rows f)
   \<and> (col_weights f = None \<longrightarrow>
      weighted_n_node_cols (fold (init_row_step sc ec) ps f) = weighted_n_node_cols f)"
  by (induction ps arbitrary: f) (simp_all add: init_row_step_node_weights init_row_step_frame)

lemma init_unweighted_node_samples:
  "BipartiteCriterion.weighted_n_node_samples
     (snd (RegressionCriterionGSO_init Xr Xc Y None None wnr wnc ridx cidx s e self))
     = real_of_int (int (fst e) - int (fst s)) * real_of_int (int (snd e) - int (snd s))"
proof -
  let ?self0 = "init_fields Xr Xc Y None None wnr wnc ridx cidx s e self"
  let ?g = "fold (init_row_step (snd s) (snd e)) [fst s..<fst e] (init_entry ?self0)"
  have w0: "row_weights (init_entry ?self0) = None" "col_weights (init_entry ?self0) = None"
    by (simp_all add: init_entry_fields init_fields_fields)
  have "weighted_n_node_rows (init_entry ?self0) = real_of_int (int (fst e) - int (fst s))"
    and "weighted_n_node_cols (init_entry ?self0) = real_of_int (int (snd e) - int (snd s))"
    by (simp_all add: init_entry_def RegressionCriterionGSO.extend_def init_fields_def Let_def)
  with fold_row_node_weights [of "init_entry ?self0" "snd s" "snd e" "[fst s..<fst e]"] w0
  have "weighted_n_node_rows ?g = real_of_int (int (fst e) - int (fst s))"
    and "weighted_n_node_cols ?g = real_of_int (int (snd e) - int (snd s))"
    by simp_all
  moreover have "BipartiteCriterion.weighted_n_node_samples (init_sums s e ?self0)
      = weighted_n_node_rows ?g * weighted_n_node_cols ?g"
    by (simp add: init_sums_def init_entry_def Let_def RegressionCriterionGSO.truncate_def)
  ultimately show ?thesis
    by (simp add: RegressionCriterionGSO_init_def init_children_fields)
qed

lemma init_lengths:
  "length (y_row_sums (snd (RegressionCriterionGSO_init Xr Xc Y rw cw wnr wnc ridx cidx s e self)))
     = length (y_row_sums self)"
  "length (y_col_sums (snd (RegressionCriterionGSO_init Xr Xc Y rw cw wnr wnc ridx cidx s e self)))
     = length (y_col_sums self)"
  "length (BipartiteCriterion.sum_total
             (snd (RegressionCriterionGSO_init Xr Xc Y rw cw wnr wnc ridx cidx s e self)))
     = length (BipartiteCriterion.sum_total self)"
  using fold_row_frame [OF init_entry_ok, of "snd s" "snd e" "[fst s..<fst e]"
          "init_fields Xr Xc Y rw cw wnr wnc ridx cidx s e self"]
  by (simp_all add: RegressionCriterionGSO_init_def init_children_fields init_sums_fields
        init_entry_fields init_fields_fields)

subsection \<open>The marginal sums\<close>

lemma init_marginals:
  fixes Xr Xc :: matrix and wnr wnc :: real
  assumes nb: "node_in_bounds Y rw cw ridx cidx s e self"
  defines "self' \<equiv> snd (RegressionCriterionGSO_init Xr Xc Y rw cw wnr wnc ridx cidx s e self)"
  shows "\<forall>p. fst s \<le> p \<and> p < fst e \<longrightarrow>
             y_row_sums self' ! (ridx ! p) = spec_row_sum Y cw cidx (snd s) (snd e) (ridx ! p)"
    and "\<forall>q. snd s \<le> q \<and> q < snd e \<longrightarrow>
             y_col_sums self' ! (cidx ! q) = spec_col_sum Y rw ridx (fst s) (fst e) (cidx ! q)"
    and "BipartiteCriterion.sum_total self' ! 0 = spec_sum_total Y rw cw ridx cidx s e"
    and "BipartiteCriterion.sq_sum_total self' = spec_sq_sum_total Y rw cw ridx cidx s e"
proof -
  let ?self0 = "init_fields Xr Xc Y rw cw wnr wnc ridx cidx s e self"
  let ?f0 = "init_entry ?self0"
  let ?g = "fold (init_row_step (snd s) (snd e)) [fst s..<fst e] ?f0"
  have f0: "col_indices ?f0 = cidx" "col_weights ?f0 = cw" "row_indices ?f0 = ridx"
    "row_weights ?f0 = rw" "BipartiteCriterion.y ?f0 = Y" "is_first_row ?f0"
    "local_sum_total ?f0 = 0" "local_sq_sum_total ?f0 = 0"
    "y_row_sums ?f0 = y_row_sums self" "y_col_sums ?f0 = y_col_sums self"
    "BipartiteCriterion.sum_total ?f0 = BipartiteCriterion.sum_total self"
    by (simp_all add: init_entry_fields init_fields_fields)
  note ok = init_entry_ok [of ?self0]
  have rt: "\<And>i q. row_term ?f0 i q = weight_of cw (cidx ! q) * (Y ! i ! (cidx ! q))"
    by (simp add: row_term_def f0)
  have res:
    "y_row_sums self' = y_row_sums ?g" "y_col_sums self' = y_col_sums ?g"
    "BipartiteCriterion.sq_sum_total self' = local_sq_sum_total ?g"
    "BipartiteCriterion.sum_total self'
       = (BipartiteCriterion.sum_total ?g)[0 := local_sum_total ?g]"
    by (simp_all add: self'_def RegressionCriterionGSO_init_def init_children_fields init_sums_fields)
  show "\<forall>p. fst s \<le> p \<and> p < fst e \<longrightarrow>
             y_row_sums self' ! (ridx ! p) = spec_row_sum Y cw cidx (snd s) (snd e) (ridx ! p)"
  proof (intro allI impI)
    fix p assume p: "fst s \<le> p \<and> p < fst e"
    then have mem: "p \<in> set [fst s..<fst e]" by simp
    with nb have "ridx ! p < length (y_row_sums self)"
      by (auto simp: node_in_bounds_def list_all_iff)
    then have len: "row_indices ?f0 ! p < length (y_row_sums ?f0)"
      by (simp add: f0)
    show "y_row_sums self' ! (ridx ! p) = spec_row_sum Y cw cidx (snd s) (snd e) (ridx ! p)"
      using fold_row_row_sums [OF ok mem len, of "snd s" "snd e"]
      by (simp add: res f0 rt spec_row_sum_def)
  qed
  show "\<forall>q. snd s \<le> q \<and> q < snd e \<longrightarrow>
             y_col_sums self' ! (cidx ! q) = spec_col_sum Y rw ridx (fst s) (fst e) (cidx ! q)"
  proof (intro allI impI)
    fix q assume q: "snd s \<le> q \<and> q < snd e"
    then have mem: "q \<in> set [snd s..<snd e]" by simp
    with nb have "cidx ! q < length (y_col_sums self)"
      by (auto simp: node_in_bounds_def list_all_iff)
    then have len: "cidx ! q < length (y_col_sums ?f0)"
      by (simp add: f0)
    have ne: "[fst s..<fst e] \<noteq> []"
      using nb by (simp add: node_in_bounds_def)
    have d: "distinct (map (\<lambda>q. col_indices ?f0 ! q) [snd s..<snd e])"
      using nb by (simp add: node_in_bounds_def f0)
    have inC: "cidx ! q \<in> (\<lambda>q. col_indices ?f0 ! q) ` {snd s..<snd e}"
      using q by (auto simp: f0)
    show "y_col_sums self' ! (cidx ! q) = spec_col_sum Y rw ridx (fst s) (fst e) (cidx ! q)"
      using fold_row_col_sums [OF ok f0(6) ne d len inC]
      by (simp add: res f0 spec_col_sum_def)
  qed
  have st: "BipartiteCriterion.sum_total ?g = BipartiteCriterion.sum_total self"
    using fold_row_frame [OF ok, of "snd s" "snd e" "[fst s..<fst e]"] by (simp add: f0)
  have "0 < length (BipartiteCriterion.sum_total self)"
    using nb by (simp add: node_in_bounds_def)
  then have "BipartiteCriterion.sum_total self' ! 0 = local_sum_total ?g"
    by (simp add: res st)
  also have "\<dots> = spec_sum_total Y rw cw ridx cidx s e"
    using fold_row_sum_total [OF ok, of "snd s" "snd e" "[fst s..<fst e]"]
    by (simp add: f0 rt spec_sum_total_def sum_list_const_mult mult.assoc)
  finally show "BipartiteCriterion.sum_total self' ! 0 = spec_sum_total Y rw cw ridx cidx s e" .
  have "BipartiteCriterion.sq_sum_total self' = local_sq_sum_total ?g"
    by (simp add: res)
  also have "\<dots> = spec_sq_sum_total Y rw cw ridx cidx s e"
    using fold_row_sq_sum_total [OF ok, of "snd s" "snd e" "[fst s..<fst e]"]
    by (simp add: f0 rt spec_sq_sum_total_def sum_list_const_mult mult.assoc power2_eq_square)
  finally show "BipartiteCriterion.sq_sum_total self' = spec_sq_sum_total Y rw cw ridx cidx s e" .
qed

lemma list_of_length_3: "length xs = 3 \<Longrightarrow> xs = [xs ! 0, xs ! 1, xs ! 2]"
  by (auto simp: eval_nat_numeral length_Suc_conv)

lemma list_of_length_1: "length xs = 1 \<Longrightarrow> xs = [xs ! 0]"
  by (auto simp: length_Suc_conv)

lemma spec_3x3:
  "spec_row_sum Y_3x3 None [0, 1, 2] 0 3 0 = 6"
  "spec_row_sum Y_3x3 None [0, 1, 2] 0 3 1 = 15"
  "spec_row_sum Y_3x3 None [0, 1, 2] 0 3 2 = 24"
  "spec_col_sum Y_3x3 None [0, 1, 2] 0 3 0 = 12"
  "spec_col_sum Y_3x3 None [0, 1, 2] 0 3 1 = 15"
  "spec_col_sum Y_3x3 None [0, 1, 2] 0 3 2 = 18"
  "spec_sum_total Y_3x3 None None [0, 1, 2] [0, 1, 2] (0, 0) (3, 3) = 45"
  "spec_sq_sum_total Y_3x3 None None [0, 1, 2] [0, 1, 2] (0, 0) (3, 3) = 285"
  by code_simp+

lemma node_in_bounds_3x3:
  assumes "length (y_row_sums self) = 3" and "length (y_col_sums self) = 3"
      and "length (BipartiteCriterion.sum_total self) = 1"
  shows "node_in_bounds Y_3x3 None None [0, 1, 2] [0, 1, 2] (0, 0) (3, 3) self"
  using assms
  by (simp add: node_in_bounds_def weight_in_bounds_def Y_3x3_def eval_nat_numeral)

lemma init_3x3:
  fixes Xr Xc :: matrix and wnr wnc :: real
  assumes "length (y_row_sums self) = 3" and "length (y_col_sums self) = 3"
      and "length (BipartiteCriterion.sum_total self) = 1"
  defines "self' \<equiv> snd (RegressionCriterionGSO_init Xr Xc Y_3x3 None None wnr wnc
                           [0, 1, 2] [0, 1, 2] (0, 0) (3, 3) self)"
  shows "y_row_sums self' = [6, 15, 24]"
    and "y_col_sums self' = [12, 15, 18]"
    and "BipartiteCriterion.sum_total self' = [45]"
    and "BipartiteCriterion.sq_sum_total self' = 285"
    and "SquaredErrorGSO_node_impurity self' = (None, 285 / 9 - (45 / 9)\<^sup>2)"
proof -
  note nb = node_in_bounds_3x3 [OF assms(1,2,3)]
  note m = init_marginals [OF nb, of Xr Xc wnr wnc, folded self'_def]
  have r: "y_row_sums self' ! 0 = 6" "y_row_sums self' ! 1 = 15" "y_row_sums self' ! 2 = 24"
    using m(1) [rule_format, of 0] m(1) [rule_format, of 1] m(1) [rule_format, of 2]
    by (simp_all add: spec_3x3 [unfolded One_nat_def])
  have c: "y_col_sums self' ! 0 = 12" "y_col_sums self' ! 1 = 15" "y_col_sums self' ! 2 = 18"
    using m(2) [rule_format, of 0] m(2) [rule_format, of 1] m(2) [rule_format, of 2]
    by (simp_all add: spec_3x3 [unfolded One_nat_def])
  have t: "BipartiteCriterion.sum_total self' ! 0 = 45"
    using m(3) by (simp add: spec_3x3 [unfolded One_nat_def])
  show sq: "BipartiteCriterion.sq_sum_total self' = 285"
    using m(4) by (simp add: spec_3x3 [unfolded One_nat_def])
  have len: "length (y_row_sums self') = 3" "length (y_col_sums self') = 3"
    "length (BipartiteCriterion.sum_total self') = 1"
    using assms(1,2,3) by (simp_all add: self'_def init_lengths)
  show "y_row_sums self' = [6, 15, 24]"
    using list_of_length_3 [OF len(1)] r by simp
  show "y_col_sums self' = [12, 15, 18]"
    using list_of_length_3 [OF len(2)] c by simp
  show "BipartiteCriterion.sum_total self' = [45]"
    using list_of_length_1 [OF len(3)] t by simp
  have wn: "BipartiteCriterion.weighted_n_node_samples self' = 9"
    by (simp add: self'_def init_unweighted_node_samples)
  show "SquaredErrorGSO_node_impurity self' = (None, 285 / 9 - (45 / 9)\<^sup>2)"
    by (simp add: SquaredErrorGSO_node_impurity_def cdiv_def unraisable_def wn sq t)
qed

text \<open>
  C2. For a node inside its arrays, \<^verbatim>\<open>RegressionCriterionGSO.init\<close> leaves in
  \<^verbatim>\<open>y_row_sums[i]\<close> the column-weighted sum of \<open>Y\<close> over the node's columns, in
  \<^verbatim>\<open>y_col_sums[j]\<close> the row-weighted sum over the node's rows, and in \<^verbatim>\<open>sum_total[0]\<close> and
  \<^verbatim>\<open>sq_sum_total\<close> the doubly weighted total and total of squares over the rectangle. On
  the \<open>3 \<times> 3\<close> node without weights and \<open>Y = [[1,2,3],[4,5,6],[7,8,9]]\<close> this gives
  \<open>y_row_sums = [6,15,24]\<close>, \<open>y_col_sums = [12,15,18]\<close>, \<open>sum_total = 45\<close>,
  \<open>sq_sum_total = 285\<close>, and \<^verbatim>\<open>SquaredErrorGSO.node_impurity\<close> then returns
  \<open>285/9 - (45/9)\<^sup>2\<close> with no exception ignored, whatever the arrays held before.
\<close>

theorem RegressionCriterionGSO_init_marginal_sums:
  fixes Xr Xc :: matrix and wnr wnc :: real
  shows
    "(node_in_bounds Y rw cw ridx cidx s e self \<longrightarrow>
        (let self' = snd (RegressionCriterionGSO_init Xr Xc Y rw cw wnr wnc ridx cidx s e self) in
           (\<forall>p. fst s \<le> p \<and> p < fst e \<longrightarrow>
                 y_row_sums self' ! (ridx ! p)
                   = spec_row_sum Y cw cidx (snd s) (snd e) (ridx ! p))
         \<and> (\<forall>q. snd s \<le> q \<and> q < snd e \<longrightarrow>
                 y_col_sums self' ! (cidx ! q)
                   = spec_col_sum Y rw ridx (fst s) (fst e) (cidx ! q))
         \<and> BipartiteCriterion.sum_total self' ! 0 = spec_sum_total Y rw cw ridx cidx s e
         \<and> BipartiteCriterion.sq_sum_total self' = spec_sq_sum_total Y rw cw ridx cidx s e))
     \<and> (length (y_row_sums self) = 3 \<and> length (y_col_sums self) = 3
          \<and> length (BipartiteCriterion.sum_total self) = 1 \<longrightarrow>
        (let self' = snd (RegressionCriterionGSO_init Xr Xc Y_3x3 None None wnr wnc
                            [0, 1, 2] [0, 1, 2] (0, 0) (3, 3) self) in
           y_row_sums self' = [6, 15, 24]
         \<and> y_col_sums self' = [12, 15, 18]
         \<and> BipartiteCriterion.sum_total self' = [45]
         \<and> BipartiteCriterion.sq_sum_total self' = 285
         \<and> SquaredErrorGSO_node_impurity self' = (None, 285 / 9 - (45 / 9)\<^sup>2)))"
  unfolding Let_def
  using init_marginals [of Y rw cw ridx cidx s e self Xr Xc wnr wnc]
        init_3x3 [of self Xr Xc wnr wnc]
  by blast

lemma weighted_example_in_bounds:
  "node_in_bounds Y_3x3 (Some [1, 2, 3]) (Some [1, 1, 2]) [2, 0, 1] [1, 2, 0] (0, 1) (2, 3)
     gso_example"
  by code_simp

lemma weighted_example_spec:
  "spec_row_sum Y_3x3 (Some [1, 1, 2]) [1, 2, 0] 1 3 2 = 25"
  "spec_row_sum Y_3x3 (Some [1, 1, 2]) [1, 2, 0] 1 3 0 = 7"
  "spec_col_sum Y_3x3 (Some [1, 2, 3]) [2, 0, 1] 0 2 2 = 30"
  "spec_col_sum Y_3x3 (Some [1, 2, 3]) [2, 0, 1] 0 2 0 = 22"
  "spec_sum_total Y_3x3 (Some [1, 2, 3]) (Some [1, 1, 2]) [2, 0, 1] [1, 2, 0] (0, 1) (2, 3) = 82"
  "spec_sq_sum_total Y_3x3 (Some [1, 2, 3]) (Some [1, 1, 2]) [2, 0, 1] [1, 2, 0] (0, 1) (2, 3) = 652"
  by code_simp+

lemma gso_example_lengths:
  "length (y_row_sums gso_example) = 3" "length (y_col_sums gso_example) = 3"
  "length (BipartiteCriterion.sum_total gso_example) = 1"
  by (simp_all add: gso_example_def)

theorem RegressionCriterionGSO_init_marginal_sums_witness:
  "y_row_sums (snd (RegressionCriterionGSO_init [] [] Y_3x3 (Some [1, 2, 3]) (Some [1, 1, 2]) 6 4
                      [2, 0, 1] [1, 2, 0] (0, 1) (2, 3) gso_example)) ! 2 = 25
   \<and> y_row_sums (snd (RegressionCriterionGSO_init [] [] Y_3x3 (Some [1, 2, 3]) (Some [1, 1, 2]) 6 4
                      [2, 0, 1] [1, 2, 0] (0, 1) (2, 3) gso_example)) ! 0 = 7
   \<and> y_col_sums (snd (RegressionCriterionGSO_init [] [] Y_3x3 (Some [1, 2, 3]) (Some [1, 1, 2]) 6 4
                      [2, 0, 1] [1, 2, 0] (0, 1) (2, 3) gso_example)) ! 2 = 30
   \<and> y_col_sums (snd (RegressionCriterionGSO_init [] [] Y_3x3 (Some [1, 2, 3]) (Some [1, 1, 2]) 6 4
                      [2, 0, 1] [1, 2, 0] (0, 1) (2, 3) gso_example)) ! 0 = 22
   \<and> BipartiteCriterion.sum_total
         (snd (RegressionCriterionGSO_init [] [] Y_3x3 (Some [1, 2, 3]) (Some [1, 1, 2]) 6 4
                 [2, 0, 1] [1, 2, 0] (0, 1) (2, 3) gso_example)) ! 0 = 82
   \<and> BipartiteCriterion.sq_sum_total
         (snd (RegressionCriterionGSO_init [] [] Y_3x3 (Some [1, 2, 3]) (Some [1, 1, 2]) 6 4
                 [2, 0, 1] [1, 2, 0] (0, 1) (2, 3) gso_example)) = 652
   \<and> y_row_sums (snd (RegressionCriterionGSO_init [] [] Y_3x3 None None 3 3
                      [0, 1, 2] [0, 1, 2] (0, 0) (3, 3) gso_example)) = [6, 15, 24]
   \<and> y_col_sums (snd (RegressionCriterionGSO_init [] [] Y_3x3 None None 3 3
                      [0, 1, 2] [0, 1, 2] (0, 0) (3, 3) gso_example)) = [12, 15, 18]
   \<and> SquaredErrorGSO_node_impurity
         (snd (RegressionCriterionGSO_init [] [] Y_3x3 None None 3 3
                 [0, 1, 2] [0, 1, 2] (0, 0) (3, 3) gso_example)) = (None, 20 / 3)"
proof -
  let ?w = "snd (RegressionCriterionGSO_init [] [] Y_3x3 (Some [1, 2, 3]) (Some [1, 1, 2]) 6 4
                   [2, 0, 1] [1, 2, 0] (0, 1) (2, 3) gso_example)"
  let ?u = "snd (RegressionCriterionGSO_init [] [] Y_3x3 None None 3 3
                   [0, 1, 2] [0, 1, 2] (0, 0) (3, 3) gso_example)"
  note th = RegressionCriterionGSO_init_marginal_sums
              [where Y = Y_3x3 and rw = "Some [1, 2, 3]" and cw = "Some [1, 1, 2]"
                 and ridx = "[2, 0, 1]" and cidx = "[1, 2, 0]" and s = "(0, 1)" and e = "(2, 3)"
                 and self = gso_example and Xr = "[]" and Xc = "[]" and wnr = 6 and wnc = 4,
               unfolded Let_def]
  note tu = RegressionCriterionGSO_init_marginal_sums
              [where self = gso_example and Xr = "[]" and Xc = "[]" and wnr = 3 and wnc = 3,
               unfolded Let_def]
  from th weighted_example_in_bounds have
    rows: "\<forall>p. fst (0::nat, 1::nat) \<le> p \<and> p < fst (2::nat, 3::nat) \<longrightarrow>
               y_row_sums ?w ! ([2, 0, 1] ! p)
                 = spec_row_sum Y_3x3 (Some [1, 1, 2]) [1, 2, 0] (snd (0::nat, 1::nat))
                     (snd (2::nat, 3::nat)) ([2, 0, 1] ! p)"
    and cols: "\<forall>q. snd (0::nat, 1::nat) \<le> q \<and> q < snd (2::nat, 3::nat) \<longrightarrow>
               y_col_sums ?w ! ([1, 2, 0] ! q)
                 = spec_col_sum Y_3x3 (Some [1, 2, 3]) [2, 0, 1] (fst (0::nat, 1::nat))
                     (fst (2::nat, 3::nat)) ([1, 2, 0] ! q)"
    and tot: "BipartiteCriterion.sum_total ?w ! 0
               = spec_sum_total Y_3x3 (Some [1, 2, 3]) (Some [1, 1, 2]) [2, 0, 1] [1, 2, 0]
                   (0, 1) (2, 3)"
    and sq: "BipartiteCriterion.sq_sum_total ?w
               = spec_sq_sum_total Y_3x3 (Some [1, 2, 3]) (Some [1, 1, 2]) [2, 0, 1] [1, 2, 0]
                   (0, 1) (2, 3)"
    by blast+
  have r2: "y_row_sums ?w ! 2 = 25"
    using rows [rule_format, of 0] by (simp add: weighted_example_spec [unfolded One_nat_def])
  have r0: "y_row_sums ?w ! 0 = 7"
    using rows [rule_format, of 1] by (simp add: weighted_example_spec [unfolded One_nat_def])
  have c2: "y_col_sums ?w ! 2 = 30"
    using cols [rule_format, of 1] by (simp add: weighted_example_spec [unfolded One_nat_def])
  have c0: "y_col_sums ?w ! 0 = 22"
    using cols [rule_format, of 2] by (simp add: weighted_example_spec [unfolded One_nat_def])
  have t: "BipartiteCriterion.sum_total ?w ! 0 = 82"
    using tot by (simp only: weighted_example_spec)
  have s: "BipartiteCriterion.sq_sum_total ?w = 652"
    using sq by (simp only: weighted_example_spec)
  from tu gso_example_lengths have
    u: "y_row_sums ?u = [6, 15, 24]" "y_col_sums ?u = [12, 15, 18]"
       "SquaredErrorGSO_node_impurity ?u = (None, 285 / 9 - (45 / 9)\<^sup>2)"
    by blast+
  have "(285 / 9 - (45 / 9)\<^sup>2 :: real) = 20 / 3"
    by (simp add: power2_eq_square)
  with u(3) have i: "SquaredErrorGSO_node_impurity ?u = (None, 20 / 3)"
    by simp
  from r2 r0 c2 c0 t s u(1,2) i show ?thesis
    by blast
qed

section \<open>Properties of MSE_Wrapper2DSS\<close>

text \<open>
  C3. With at least one unsupervised feature on the two axes together,
  \<^verbatim>\<open>MSE_Wrapper2DSS.node_impurity\<close> returns, with no exception ignored,
  \<open>u + s (sup\<^sub>r + sup\<^sub>c) / 2\<close> where
  \<open>u = (n\<^sub>r (1 - sup\<^sub>r) u\<^sub>r\<^sub>o\<^sub>w\<^sub>s + n\<^sub>c (1 - sup\<^sub>c) u\<^sub>c\<^sub>o\<^sub>l\<^sub>s) / (n\<^sub>r + n\<^sub>c)\<close>: \<open>n\<^sub>r\<close>, \<open>n\<^sub>c\<close> are the
  \<^verbatim>\<open>n_outputs\<close> of the two unsupervised criteria, \<open>sup\<^sub>r\<close>, \<open>sup\<^sub>c\<close> the supervision weights,
  \<open>u\<^sub>r\<^sub>o\<^sub>w\<^sub>s\<close>, \<open>u\<^sub>c\<^sub>o\<^sub>l\<^sub>s\<close> the unsupervised node impurities and \<open>s\<close> the node impurity of the
  base class \<^verbatim>\<open>MSE_Wrapper2D\<close>.
\<close>

theorem MSE_Wrapper2DSS_node_impurity_formula:
  fixes MSE_Wrapper2D_node_impurity :: "MSE_Wrapper2DSS \<Rightarrow> real"
    and self :: MSE_Wrapper2DSS
  defines "n_r \<equiv> Criterion.n_outputs (state (unsupervised_criterion (criterion (splitter_rows self))))"
      and "n_c \<equiv> Criterion.n_outputs (state (unsupervised_criterion (criterion (splitter_cols self))))"
      and "sup_r \<equiv> supervision (criterion (splitter_rows self))"
      and "sup_c \<equiv> supervision (criterion (splitter_cols self))"
      and "u_rows \<equiv> call_node_impurity (unsupervised_criterion (criterion (splitter_rows self)))"
      and "u_cols \<equiv> call_node_impurity (unsupervised_criterion (criterion (splitter_cols self)))"
      and "s \<equiv> MSE_Wrapper2D_node_impurity self"
  assumes "n_r + n_c \<noteq> 0"
  shows "MSE_Wrapper2DSS_node_impurity MSE_Wrapper2D_node_impurity self
           = (None,
              (real_of_int n_r * (1 - sup_r) * u_rows + real_of_int n_c * (1 - sup_c) * u_cols)
                / real_of_int (n_r + n_c)
              + s * (sup_r + sup_c) / 2)"
  using assms
  by (simp add: MSE_Wrapper2DSS_node_impurity_def MSE_Wrapper2DSS_ss_impurity_def cdiv_def
        unraisable_def Let_def add_divide_distrib)

lemma column_criterion_n_outputs:
  "Criterion.n_outputs (state (column_criterion col hi)) = 1"
  by (simp add: column_criterion_def variance_init_def variance_reset_def variance_new_def Let_def)

lemma wrapper_of_simps:
  "criterion (splitter_rows (wrapper_of rows cols)) = rows"
  "criterion (splitter_cols (wrapper_of rows cols)) = cols"
  by (simp_all add: wrapper_of_def)

theorem MSE_Wrapper2DSS_node_impurity_formula_witness:
  "MSE_Wrapper2DSS_node_impurity (\<lambda>_. 20 / 3)
     (wrapper_of
        (composite_of (1 / 4) (column_criterion [1, 2, 3] 3) (column_criterion [0, 0, 3] 3))
        (composite_of (1 / 2) (column_criterion [1, 2, 3] 3) (column_criterion [1, 2, 3] 3)))
     = (None, 41 / 12)"
  using MSE_Wrapper2DSS_node_impurity_formula
          [of "wrapper_of
                 (composite_of (1 / 4) (column_criterion [1, 2, 3] 3) (column_criterion [0, 0, 3] 3))
                 (composite_of (1 / 2) (column_criterion [1, 2, 3] 3) (column_criterion [1, 2, 3] 3))"
              "\<lambda>_. 20 / 3"]
  by (simp add: wrapper_of_simps composite_of_simps column_criterion_n_outputs
        column_criterion_impurity_123 column_criterion_impurity_003)

section \<open>The axis argument\<close>

lemma BipartiteCriterion_get_criterion_invalid:
  "axis \<noteq> 0 \<Longrightarrow> axis \<noteq> 1 \<Longrightarrow> BipartiteCriterion_get_criterion self axis = Inl InvalidAxisError"
  by (simp add: BipartiteCriterion_get_criterion_def)

text \<open>
  The methods that take the axis ignore the exception of an invalid axis: they return
  \<open>0.0\<close>, or leave their outputs unwritten.
\<close>

lemma GSO_invalid_axis:
  assumes "axis \<noteq> 0" and "axis \<noteq> 1"
  shows "RegressionCriterionGSO_impurity_improvement self p l r axis = (Some InvalidAxisError, 0)"
    and "FriedmanGSO_impurity_improvement self p l r axis = (Some InvalidAxisError, 0)"
    and "SquaredErrorGSO_children_impurity self axis out = (Some InvalidAxisError, out)"
  using assms
  by (simp_all add: RegressionCriterionGSO_impurity_improvement_def
        FriedmanGSO_impurity_improvement_def SquaredErrorGSO_children_impurity_def
        BipartiteCriterion_get_criterion_invalid unraisable_def)

lemma GMO_invalid_axis:
  assumes "axis \<noteq> 0" and "axis \<noteq> 1"
  shows "GMO_impurity_improvement self p l r axis = (Some InvalidAxisError, 0)"
    and "GMO_children_impurity self axis out = (Some InvalidAxisError, out)"
  using assms
  by (simp_all add: GMO_impurity_improvement_def GMO_children_impurity_def
        BipartiteCriterion_get_criterion_invalid unraisable_def)

lemma MSE_Wrapper2DSS_invalid_axis:
  assumes "axis \<noteq> 0" and "axis \<noteq> 1"
  shows "MSE_Wrapper2DSS_get_criterion self axis = Inl UnboundLocalError"
    and "MSE_Wrapper2DSS_impurity_improvement self p l r axis = (Some UnboundLocalError, 0)"
  using assms
  by (simp_all add: MSE_Wrapper2DSS_get_criterion_def MSE_Wrapper2DSS_impurity_improvement_def
        unraisable_def)

text \<open>
  C6. With \<open>axis = 2\<close>, \<^verbatim>\<open>MSE_Wrapper2DSS._get_criterion\<close> fails with \<^verbatim>\<open>UnboundLocalError\<close>,
  where the \<^verbatim>\<open>_get_criterion\<close> of \<^verbatim>\<open>RegressionCriterionGSO\<close> and of \<^verbatim>\<open>GMO\<close> fails with
  \<^verbatim>\<open>InvalidAxisError\<close>.
\<close>

theorem MSE_Wrapper2DSS_axis_2:
  "MSE_Wrapper2DSS_get_criterion self 2 = Inl UnboundLocalError
   \<and> BipartiteCriterion_get_criterion gso 2 = Inl InvalidAxisError"
  by (simp add: MSE_Wrapper2DSS_get_criterion_def BipartiteCriterion_get_criterion_def)

section \<open>Properties of impurity_improvement\<close>

text \<open>
  C4 as stated fails: on the initialised \<open>3 \<times> 3\<close> example the row criterion's improvement
  for \<open>(1, 0, 0)\<close> is \<open>1\<close>, and \<^verbatim>\<open>FriedmanGSO.impurity_improvement\<close> returns \<open>1/3\<close>, not \<open>1\<close>.
\<close>

theorem FriedmanGSO_not_unscaled:
  "call_impurity_improvement (criterion_rows gso_3x3) 1 0 0 = 1
   \<and> FriedmanGSO_impurity_improvement gso_3x3 1 0 0 0 = (None, 1 / 3)
   \<and> snd (FriedmanGSO_impurity_improvement gso_3x3 1 0 0 0)
       \<noteq> call_impurity_improvement (criterion_rows gso_3x3) 1 0 0"
  by code_simp

text \<open>
  C4, amended. For an axis \<open>0\<close> or \<open>1\<close>, \<^verbatim>\<open>RegressionCriterionGSO.impurity_improvement\<close>
  (which \<^verbatim>\<open>SquaredErrorGSO\<close> inherits) returns the axis criterion's improvement times
  \<open>weighted_n_node_other / weighted_n_other\<close>, and \<^verbatim>\<open>FriedmanGSO.impurity_improvement\<close>
  returns the same improvement divided by \<open>weighted_n_node_other\<close>, where \<open>other\<close> is the
  other axis and the divisor is not \<open>0\<close>.
\<close>

theorem GSO_and_Friedman_impurity_improvement:
  fixes self :: "'a RegressionCriterionGSO_scheme"
    and axis :: int
    and impurity_parent impurity_left impurity_right :: real
  assumes "axis = 0 \<or> axis = 1"
  defines "c \<equiv> (if axis = 0 then criterion_rows self else criterion_cols self)"
      and "node_other \<equiv> (if axis = 0 then weighted_n_node_cols self else weighted_n_node_rows self)"
      and "n_other \<equiv> (if axis = 0 then weighted_n_cols self else weighted_n_rows self)"
  defines "imp \<equiv> call_impurity_improvement c impurity_parent impurity_left impurity_right"
  shows "(n_other \<noteq> 0 \<longrightarrow>
            RegressionCriterionGSO_impurity_improvement self
                impurity_parent impurity_left impurity_right axis
              = (None, imp * (node_other / n_other)))
         \<and> (node_other \<noteq> 0 \<longrightarrow>
            FriedmanGSO_impurity_improvement self
                impurity_parent impurity_left impurity_right axis
              = (None, imp / node_other))"
  using assms
  by (auto simp: RegressionCriterionGSO_impurity_improvement_def
        FriedmanGSO_impurity_improvement_def BipartiteCriterion_get_criterion_def cdiv_def
        unraisable_def Let_def)

lemma gso_3x3_weights:
  "weighted_n_node_cols gso_3x3 = 3" "weighted_n_cols gso_3x3 = 6"
  "weighted_n_node_rows gso_3x3 = 3" "weighted_n_rows gso_3x3 = 3"
  "call_impurity_improvement (criterion_rows gso_3x3) 1 0 0 = 1"
  "call_impurity_improvement (criterion_cols gso_3x3) 1 0 0 = 1 / 2"
  by code_simp+

theorem GSO_and_Friedman_impurity_improvement_witness:
  "RegressionCriterionGSO_impurity_improvement gso_3x3 1 0 0 0 = (None, 1 / 2)
   \<and> FriedmanGSO_impurity_improvement gso_3x3 1 0 0 0 = (None, 1 / 3)
   \<and> RegressionCriterionGSO_impurity_improvement gso_3x3 1 0 0 1 = (None, 1 / 2)
   \<and> FriedmanGSO_impurity_improvement gso_3x3 1 0 0 1 = (None, 1 / 6)"
  using GSO_and_Friedman_impurity_improvement [of 0 gso_3x3 1 0 0]
        GSO_and_Friedman_impurity_improvement [of 1 gso_3x3 1 0 0]
  by (simp add: gso_3x3_weights)

section \<open>Properties of GMO.__init__\<close>

lemma GMO_new_rows_only_classification:
  "GMO_new (r\<lparr>kind := AxisClassificationCriterion m\<rparr>) (c\<lparr>kind := AxisCriterion\<rparr>) = Inl TypeError"
  by (simp add: GMO_new_def)

text \<open>
  C8. When only the column criterion is an \<^verbatim>\<open>AxisClassificationCriterion\<close>, \<^verbatim>\<open>GMO.__init__\<close>
  raises nothing: it builds the object with \<open>max_n_classes = 1\<close>.
\<close>

theorem GMO_new_columns_only_classification:
  "\<exists>self. GMO_new (r\<lparr>kind := AxisCriterion\<rparr>) (c\<lparr>kind := AxisClassificationCriterion m\<rparr>) = Inr self
          \<and> max_n_classes self = 1
          \<and> kind (criterion_rows self) = AxisCriterion
          \<and> kind (criterion_cols self) = AxisClassificationCriterion m"
  by (simp add: GMO_new_def Let_def)

end
